theory Spec2Isabelle
  imports Complex_Main "HOL-Library.Multiset" "HOL-Library.Sublist"
begin

section \<open>Instants, durations and their text\<close>

text \<open>
  The loader of \<^verbatim>\<open>RealTimeMarketDataLoader.py\<close> computes with \<^verbatim>\<open>datetime\<close> values that
  all carry the same time zone object. Python adds a \<^verbatim>\<open>timedelta\<close> to such a value on
  the wall clock and compares two of them on the wall clock, so an instant is the number
  of microseconds of wall-clock time since 1970-01-01T00:00:00, an unbounded integer.
  The calendar bound of \<^verbatim>\<open>datetime\<close> (the years 1 to 9999) is not part of the model.
\<close>

type_synonym instant = int

definition day :: int where
  "day = 86400000000"

definition timedelta :: "int \<Rightarrow> int" where
  "timedelta days = days * day"

definition date_of :: "instant \<Rightarrow> int" where
  "date_of t = t div day"

definition digit_char :: "nat \<Rightarrow> char" where
  "digit_char n = ''0123456789'' ! n"

fun str_nat :: "nat \<Rightarrow> string" where
  "str_nat n = (if n < 10 then [digit_char n] else str_nat (n div 10) @ [digit_char (n mod 10)])"

declare str_nat.simps [simp del]

definition str_int :: "int \<Rightarrow> string" where
  "str_int i = (if i < 0 then CHR ''-'' # str_nat (nat (- i)) else str_nat (nat i))"

definition zero_pad :: "nat \<Rightarrow> string \<Rightarrow> string" where
  "zero_pad w s = replicate (w - length s) CHR ''0'' @ s"

text \<open>
  The civil date (year, month, day of month) of a day number counted from 1970-01-01, in
  the proleptic Gregorian calendar that \<^verbatim>\<open>datetime\<close> uses.
\<close>

definition civil_from_days :: "int \<Rightarrow> int \<times> int \<times> int" where
  "civil_from_days z0 =
    (let z = z0 + 719468;
         era = z div 146097;
         doe = z - era * 146097;
         yoe = (doe - doe div 1460 + doe div 36524 - doe div 146096) div 365;
         doy = doe - (365 * yoe + yoe div 4 - yoe div 100);
         mp = (5 * doy + 2) div 153;
         d = doy - (153 * mp + 2) div 5 + 1;
         m = (if mp < 10 then mp + 3 else mp - 9);
         y = yoe + era * 400 + (if m \<le> 2 then 1 else 0)
     in (y, m, d))"

definition isoformat :: "int \<Rightarrow> string" where
  "isoformat d =
    (case civil_from_days d of
      (y, m, dd) \<Rightarrow> zero_pad 4 (str_int y) @ ''-'' @ zero_pad 2 (str_int m) @ ''-'' @ zero_pad 2 (str_int dd))"

text \<open>\<^verbatim>\<open>t.strftime('%Y-%m-%d')\<close>, for the years of four digits.\<close>

definition strftime_ymd :: "instant \<Rightarrow> string" where
  "strftime_ymd t = isoformat (date_of t)"

section \<open>Exceptions\<close>

text \<open>
  A Python exception is a value: every function of the model returns \<open>Inl e\<close> where the
  source would raise \<open>e\<close>. Only instances of \<^verbatim>\<open>Exception\<close> are modelled, the ones
  \<^verbatim>\<open>except Exception\<close> catches.
\<close>

datatype exn = KeyError string | ValueError string | TypeError string | OtherError string

fun str_exn :: "exn \<Rightarrow> string" where
  "str_exn (KeyError k) = CHR 0x27 # k @ [CHR 0x27]"
| "str_exn (ValueError m) = m"
| "str_exn (TypeError m) = m"
| "str_exn (OtherError m) = m"

section \<open>Data frames\<close>

text \<open>
  A pandas frame, row by row: the names of its index levels, the labels of its columns,
  and for each row the cells of the index levels followed by the cells of the columns.
  The labels of a frame are pairwise distinct and its rows have one cell per label, as in
  every frame pandas builds from the provider's rows; the operations below read a label's
  first column. A cell that \<^verbatim>\<open>pd.to_datetime\<close> converts to an instant is a \<open>Timestamp\<close>;
  the conversion rejects every other cell.
\<close>

datatype cell = Timestamp instant | DateC int | Str string | Num rat | NaN

record frame =
  index_names :: "string list"
  columns :: "string list"
  data :: "cell list list"

definition df_empty :: "frame \<Rightarrow> bool" where
  "df_empty df = (data df = [] \<or> columns df = [])"

definition cell_at :: "string list \<Rightarrow> cell list \<Rightarrow> string \<Rightarrow> cell" where
  "cell_at labels row c = (case map_of (zip labels row) c of Some v \<Rightarrow> v | None \<Rightarrow> NaN)"

definition row_cells :: "frame \<Rightarrow> cell list \<Rightarrow> cell list" where
  "row_cells df row = drop (length (index_names df)) row"

definition reset_index :: "frame \<Rightarrow> exn + frame" where
  "reset_index df =
    (if \<not> distinct (index_names df) \<or> list_ex (\<lambda>n. n \<in> set (columns df)) (index_names df)
     then Inl (ValueError ''cannot insert level, already exists'')
     else Inr \<lparr>index_names = [], columns = index_names df @ columns df, data = data df\<rparr>)"

definition getitem :: "frame \<Rightarrow> string \<Rightarrow> exn + cell list" where
  "getitem df c =
    (if c \<in> set (columns df)
     then Inr (map (\<lambda>row. cell_at (columns df) (row_cells df row) c) (data df))
     else Inl (KeyError c))"

fun to_date :: "cell \<Rightarrow> exn + cell" where
  "to_date (Timestamp t) = Inr (DateC (date_of t))"
| "to_date c = Inl (TypeError ''cannot convert to datetime'')"

fun to_dates :: "cell list \<Rightarrow> exn + cell list" where
  "to_dates [] = Inr []"
| "to_dates (c # cs) =
    (case to_date c of
      Inl e \<Rightarrow> Inl e
    | Inr d \<Rightarrow> (case to_dates cs of Inl e \<Rightarrow> Inl e | Inr ds \<Rightarrow> Inr (d # ds)))"

definition setitem :: "frame \<Rightarrow> string \<Rightarrow> cell list \<Rightarrow> frame" where
  "setitem df c vals =
    (let k = length (index_names df) in
     if c \<in> set (columns df)
     then df\<lparr>data := map2 (\<lambda>row v. take k row @ map2 (\<lambda>l x. if l = c then v else x) (columns df) (drop k row))
                        (data df) vals\<rparr>
     else df\<lparr>columns := columns df @ [c], data := map2 (\<lambda>row v. row @ [v]) (data df) vals\<rparr>)"

definition rename :: "(string \<times> string) list \<Rightarrow> frame \<Rightarrow> frame" where
  "rename m df = df\<lparr>columns := map (\<lambda>c. case map_of m c of Some c' \<Rightarrow> c' | None \<Rightarrow> c) (columns df)\<rparr>"

definition select_columns :: "string list \<Rightarrow> frame \<Rightarrow> exn + frame" where
  "select_columns cs df =
    (case filter (\<lambda>c. c \<notin> set (columns df)) cs of
      c # _ \<Rightarrow> Inl (KeyError c)
    | [] \<Rightarrow> Inr \<lparr>index_names = index_names df, columns = cs,
                data = map (\<lambda>row. take (length (index_names df)) row @
                                  map (cell_at (columns df) (row_cells df row)) cs) (data df)\<rparr>)"

definition union_labels :: "string list list \<Rightarrow> string list" where
  "union_labels ls = fold (\<lambda>c acc. if c \<in> set acc then acc else acc @ [c]) (concat ls) []"

text \<open>\<^verbatim>\<open>pd.concat(frames, ignore_index=True)\<close>: the rows of the frames in order, laid out
  under the union of their labels; the index is dropped.\<close>

definition concat_frames :: "frame list \<Rightarrow> exn + frame" where
  "concat_frames fs =
    (if fs = [] then Inl (ValueError ''No objects to concatenate'')
     else Inr \<lparr>index_names = [], columns = union_labels (map columns fs),
               data = concat (map (\<lambda>f. map (\<lambda>row. map (cell_at (columns f) (row_cells f row))
                                                      (union_labels (map columns fs)))
                                           (data f)) fs)\<rparr>)"

fun date_key :: "cell \<Rightarrow> int option" where
  "date_key (DateC d) = Some d"
| "date_key c = None"

definition the_date :: "cell \<Rightarrow> int" where
  "the_date c = (case date_key c of Some d \<Rightarrow> d | None \<Rightarrow> 0)"

text \<open>\<^verbatim>\<open>df.sort_values(c)\<close> on a column of dates. On a column that holds anything
  else the model raises.\<close>

definition sort_values :: "frame \<Rightarrow> string \<Rightarrow> exn + frame" where
  "sort_values df c =
    (if c \<notin> set (columns df) then Inl (KeyError c)
     else if list_ex (\<lambda>row. date_key (cell_at (columns df) (row_cells df row) c) = None) (data df)
     then Inl (TypeError ''cannot compare'')
     else Inr (df\<lparr>data := sort_key (\<lambda>row. the_date (cell_at (columns df) (row_cells df row) c)) (data df)\<rparr>))"

text \<open>The text of \<^verbatim>\<open>df[c].min()\<close> and \<^verbatim>\<open>df[c].max()\<close> in an f-string, for a column of dates.\<close>

definition str_min :: "cell list \<Rightarrow> string" where
  "str_min cs = (case map the_date cs of [] \<Rightarrow> ''nan'' | d # ds \<Rightarrow> isoformat (fold min ds d))"

definition str_max :: "cell list \<Rightarrow> string" where
  "str_max cs = (case map the_date cs of [] \<Rightarrow> ''nan'' | d # ds \<Rightarrow> isoformat (fold max ds d))"

section \<open>The provider, the clock, the file system and the trace of effects\<close>

datatype timeframe_unit = Minute | Hour | Day | Week | Month

datatype timeframe = TimeFrame nat timeframe_unit

text \<open>The keyword arguments of the call \<^verbatim>\<open>StockBarsRequest(...)\<close> of lines 48 to 54, named as
  the source names them.\<close>

record request =
  symbol_or_symbols :: string
  timeframe :: timeframe
  start :: instant
  end_date :: instant
  limit :: nat

text \<open>
  The request object that the call builds. Its type belongs to the provider's client library,
  not to the repository. The type declares the fields \<^verbatim>\<open>symbol_or_symbols\<close>, \<^verbatim>\<open>timeframe\<close>,
  \<^verbatim>\<open>start\<close>, \<^verbatim>\<open>end\<close> and \<^verbatim>\<open>limit\<close> (and others that the source never sets); \<^verbatim>\<open>start\<close>,
  \<^verbatim>\<open>end\<close> and \<^verbatim>\<open>limit\<close> are optional and \<open>None\<close> unless the call gives them. The
  constructor keeps the keywords that name a declared field and ignores every other keyword.
  The source passes the window's end under \<^verbatim>\<open>end_date\<close>, which names no field: the object
  is built without it, and its \<^verbatim>\<open>end\<close> stays \<open>None\<close>.
\<close>

record bars_request =
  bars_symbol_or_symbols :: string
  bars_timeframe :: timeframe
  bars_start :: "instant option"
  bars_end :: "instant option"
  bars_limit :: "nat option"

definition StockBarsRequest :: "request \<Rightarrow> bars_request" where
  "StockBarsRequest kw =
    \<lparr>bars_symbol_or_symbols = symbol_or_symbols kw, bars_timeframe = timeframe kw,
     bars_start = Some (start kw), bars_end = None, bars_limit = Some (limit kw)\<rparr>"

text \<open>The effects of a run. \<open>Request kw\<close> is the call that builds a request from the keyword
  arguments \<open>kw\<close> and sends it to the provider.\<close>

datatype event =
    Request request
  | Print string
  | Sleep nat
  | MakeDirs string
  | ToCsv string frame

text \<open>
  What the outside world answers may depend on everything that happened before: each
  collaborator is a function of the trace of effects so far. \<open>get_stock_bars\<close> is given
  the request object; it raises, or returns the \<^verbatim>\<open>.df\<close> of the response (\<open>None\<close> for no frame at all); \<open>makedirs\<close>
  and \<open>to_csv\<close> raise or succeed.
\<close>

record env =
  get_stock_bars :: "event list \<Rightarrow> bars_request \<Rightarrow> exn + frame option"
  now :: "event list \<Rightarrow> instant"
  makedirs :: "event list \<Rightarrow> string \<Rightarrow> exn option"
  to_csv :: "event list \<Rightarrow> string \<Rightarrow> frame \<Rightarrow> exn option"

section \<open>fetch_historical_data_chunk\<close>

definition canonical :: "string list" where
  "canonical = [''Date'', ''Symbol'', ''Open'', ''High'', ''Low'', ''Close'', ''Volume'']"

definition rename_map :: "(string \<times> string) list" where
  "rename_map = [(''symbol'', ''Symbol''), (''open'', ''Open''), (''high'', ''High''),
                 (''low'', ''Low''), (''close'', ''Close''), (''volume'', ''Volume'')]"

text \<open>Lines 61 to 73: the frame in the requested format.\<close>

definition format_frame :: "frame \<Rightarrow> exn + frame" where
  "format_frame df0 =
    (case reset_index df0 of
      Inl e \<Rightarrow> Inl e
    | Inr df \<Rightarrow>
        (case getitem df ''timestamp'' of
          Inl e \<Rightarrow> Inl e
        | Inr ts \<Rightarrow>
            (case to_dates ts of
              Inl e \<Rightarrow> Inl e
            | Inr ds \<Rightarrow> select_columns canonical (rename rename_map (setitem df ''Date'' ds)))))"

definition chunk_request :: "string \<Rightarrow> instant \<Rightarrow> instant \<Rightarrow> request" where
  "chunk_request symbol start_date end_date' =
    \<lparr>symbol_or_symbols = symbol, timeframe = TimeFrame 1 Day,
     start = start_date, end_date = end_date', limit = 1000\<rparr>"

text \<open>The body of the \<^verbatim>\<open>try\<close> block, lines 48 to 75.\<close>

definition chunk_try ::
  "env \<Rightarrow> string \<Rightarrow> instant \<Rightarrow> instant \<Rightarrow> event list \<Rightarrow> (exn + frame option) \<times> event list" where
  "chunk_try env symbol start_date end_date' tr =
    (let req = StockBarsRequest (chunk_request symbol start_date end_date');
         tr1 = tr @ [Request (chunk_request symbol start_date end_date')]
     in case get_stock_bars env tr req of
          Inl e \<Rightarrow> (Inl e, tr1)
        | Inr None \<Rightarrow> (Inr None, tr1)
        | Inr (Some df) \<Rightarrow>
            if df_empty df then (Inr None, tr1)
            else (case format_frame df of
                    Inl e \<Rightarrow> (Inl e, tr1)
                  | Inr df' \<Rightarrow> (Inr (Some df'), tr1)))"

definition chunk_diagnostic :: "string \<Rightarrow> exn \<Rightarrow> string" where
  "chunk_diagnostic symbol e = ''Error fetching data chunk for '' @ symbol @ '': '' @ str_exn e"

definition fetch_historical_data_chunk ::
  "env \<Rightarrow> string \<Rightarrow> instant \<Rightarrow> instant \<Rightarrow> event list \<Rightarrow> (exn + frame option) \<times> event list" where
  "fetch_historical_data_chunk env symbol start_date end_date' tr =
    (case chunk_try env symbol start_date end_date' tr of
      (Inl e, tr1) \<Rightarrow> (Inr None, tr1 @ [Print (chunk_diagnostic symbol e)])
    | (Inr r, tr1) \<Rightarrow> (Inr r, tr1))"

section \<open>fetch_historical_data\<close>

definition keep_chunk :: "frame list \<Rightarrow> frame option \<Rightarrow> frame list" where
  "keep_chunk all_data chunk_df =
    (case chunk_df of
      None \<Rightarrow> all_data
    | Some df \<Rightarrow> if \<not> df_empty df then all_data @ [df] else all_data)"

text \<open>The \<^verbatim>\<open>while\<close> loop of lines 85 to 99, on its variables \<open>all_data\<close> and
  \<open>current_start\<close> and the trace.\<close>

function fetch_loop ::
  "env \<Rightarrow> string \<Rightarrow> instant \<Rightarrow> frame list \<Rightarrow> instant \<Rightarrow> event list
    \<Rightarrow> (exn + frame list) \<times> event list" where
  "fetch_loop env symbol end_date' all_data current_start tr =
    (if current_start < end_date' then
       (let chunk_end = min (current_start + timedelta 1000) end_date'
        in case fetch_historical_data_chunk env symbol current_start chunk_end tr of
             (Inl e, tr1) \<Rightarrow> (Inl e, tr1)
           | (Inr chunk_df, tr1) \<Rightarrow>
               fetch_loop env symbol end_date' (keep_chunk all_data chunk_df)
                 (chunk_end + timedelta 1) (tr1 @ [Sleep 1]))
     else (Inr all_data, tr))"
  by pat_completeness auto
termination
  by (relation "measure (\<lambda>(env, symbol, end_date', all_data, current_start, tr). nat (end_date' - current_start))")
     (auto simp: timedelta_def day_def)

declare fetch_loop.simps [simp del]

definition fetch_historical_data ::
  "env \<Rightarrow> string \<Rightarrow> instant \<Rightarrow> instant \<Rightarrow> event list \<Rightarrow> (exn + frame option) \<times> event list" where
  "fetch_historical_data env symbol start_date end_date' tr =
    (case fetch_loop env symbol end_date' [] start_date tr of
      (Inl e, tr1) \<Rightarrow> (Inl e, tr1)
    | (Inr all_data, tr1) \<Rightarrow>
        if all_data \<noteq> [] then
          (case concat_frames all_data of
            Inl e \<Rightarrow> (Inl e, tr1)
          | Inr df \<Rightarrow> (Inr (Some df), tr1))
        else (Inr None, tr1))"

text \<open>The same loop with no termination argument: \<open>None\<close> stands for a loop that never
  returns.\<close>

partial_function (option) fetch_while ::
  "env \<Rightarrow> string \<Rightarrow> instant \<Rightarrow> frame list \<Rightarrow> instant \<Rightarrow> event list
    \<Rightarrow> ((exn + frame list) \<times> event list) option" where
  "fetch_while env symbol end_date' all_data current_start tr =
    (if current_start < end_date' then
       (let chunk_end = min (current_start + timedelta 1000) end_date'
        in case fetch_historical_data_chunk env symbol current_start chunk_end tr of
             (Inl e, tr1) \<Rightarrow> Some (Inl e, tr1)
           | (Inr chunk_df, tr1) \<Rightarrow>
               fetch_while env symbol end_date' (keep_chunk all_data chunk_df)
                 (chunk_end + timedelta 1) (tr1 @ [Sleep 1]))
     else Some (Inr all_data, tr))"

text \<open>The windows the loop asks for, one per iteration: \<open>(current_start, chunk_end)\<close>.\<close>

function windows :: "instant \<Rightarrow> instant \<Rightarrow> (instant \<times> instant) list" where
  "windows current_start end_date' =
    (if current_start < end_date' then
       (let chunk_end = min (current_start + timedelta 1000) end_date'
        in (current_start, chunk_end) # windows (chunk_end + timedelta 1) end_date')
     else [])"
  by pat_completeness auto
termination
  by (relation "measure (\<lambda>(current_start, end_date'). nat (end_date' - current_start))")
     (auto simp: timedelta_def day_def)

declare windows.simps [simp del]

section \<open>process_symbols_in_batches\<close>

definition output_dir_name :: "instant \<Rightarrow> instant \<Rightarrow> string" where
  "output_dir_name start_date end_date' =
    ''market_data_export_'' @ strftime_ymd start_date @ ''_to_'' @ strftime_ymd end_date'"

definition output_file_name :: "string \<Rightarrow> string \<Rightarrow> string" where
  "output_file_name output_dir symbol = output_dir @ ''/'' @ symbol @ ''_data.csv''"

definition saved_message :: "string \<Rightarrow> frame \<Rightarrow> exn + string" where
  "saved_message symbol df =
    (case getitem df ''Date'' of
      Inl e \<Rightarrow> Inl e
    | Inr ds \<Rightarrow> Inr (''Saved data for '' @ symbol @ '' from '' @ str_min ds @ '' to '' @ str_max ds))"

text \<open>Lines 124 to 131: sort, write, report.\<close>

definition save_symbol ::
  "env \<Rightarrow> string \<Rightarrow> string \<Rightarrow> frame \<Rightarrow> event list \<Rightarrow> (exn + unit) \<times> event list" where
  "save_symbol env output_dir symbol df0 tr =
    (case sort_values df0 ''Date'' of
      Inl e \<Rightarrow> (Inl e, tr)
    | Inr df \<Rightarrow>
        (let output_file = output_file_name output_dir symbol;
             tr1 = tr @ [ToCsv output_file df]
         in case to_csv env tr output_file df of
              Some e \<Rightarrow> (Inl e, tr1)
            | None \<Rightarrow>
                (case saved_message symbol df of
                  Inl e \<Rightarrow> (Inl e, tr1)
                | Inr msg \<Rightarrow> (Inr (), tr1 @ [Print msg]))))"

text \<open>The body of the inner \<^verbatim>\<open>for\<close> loop, lines 113 to 134, for one symbol.\<close>

definition process_symbol :: "env \<Rightarrow> string \<Rightarrow> event list \<Rightarrow> (exn + unit) \<times> event list" where
  "process_symbol env symbol tr =
    (let end_date' = now env tr;
         start_date = end_date' - timedelta (5 * 365);
         output_dir = output_dir_name start_date end_date';
         tr1 = tr @ [MakeDirs output_dir]
     in case makedirs env tr output_dir of
          Some e \<Rightarrow> (Inl e, tr1)
        | None \<Rightarrow>
            (case fetch_historical_data env symbol start_date end_date' tr1 of
              (Inl e, tr2) \<Rightarrow> (Inl e, tr2)
            | (Inr None, tr2) \<Rightarrow> (Inr (), tr2 @ [Sleep 1])
            | (Inr (Some df), tr2) \<Rightarrow>
                if \<not> df_empty df then
                  (case save_symbol env output_dir symbol df tr2 of
                    (Inl e, tr3) \<Rightarrow> (Inl e, tr3)
                  | (Inr u, tr3) \<Rightarrow> (Inr (), tr3 @ [Sleep 1]))
                else (Inr (), tr2 @ [Sleep 1])))"

fun for_symbols :: "env \<Rightarrow> string list \<Rightarrow> event list \<Rightarrow> (exn + unit) \<times> event list" where
  "for_symbols env [] tr = (Inr (), tr)"
| "for_symbols env (symbol # batch) tr =
    (case process_symbol env symbol tr of
      (Inl e, tr1) \<Rightarrow> (Inl e, tr1)
    | (Inr u, tr1) \<Rightarrow> for_symbols env batch tr1)"

text \<open>\<^verbatim>\<open>range(start, stop, step)\<close> for a step other than zero, and the slice
  \<^verbatim>\<open>xs[i:j]\<close>.\<close>

definition py_range :: "int \<Rightarrow> int \<Rightarrow> int \<Rightarrow> int list" where
  "py_range start' stop step =
    (if 0 < step then map (\<lambda>k. start' + int k * step) [0 ..< nat ((stop - start' + step - 1) div step)]
     else map (\<lambda>k. start' + int k * step) [0 ..< nat ((start' - stop - step - 1) div (- step))])"

definition slice_index :: "nat \<Rightarrow> int \<Rightarrow> nat" where
  "slice_index n k = (if k < 0 then nat (max 0 (int n + k)) else min (nat k) n)"

definition slice :: "'a list \<Rightarrow> int \<Rightarrow> int \<Rightarrow> 'a list" where
  "slice xs i j =
    take (slice_index (length xs) j - slice_index (length xs) i) (drop (slice_index (length xs) i) xs)"

definition batch_message :: "string list \<Rightarrow> int \<Rightarrow> int \<Rightarrow> string" where
  "batch_message symbols batch_size i =
    ''Processing batch '' @ str_int (i div batch_size + 1) @ '' of '' @
      str_int ((int (length symbols) + batch_size - 1) div batch_size)"

fun for_batches ::
  "env \<Rightarrow> string list \<Rightarrow> int \<Rightarrow> int list \<Rightarrow> event list \<Rightarrow> (exn + unit) \<times> event list" where
  "for_batches env symbols batch_size [] tr = (Inr (), tr)"
| "for_batches env symbols batch_size (i # rest) tr =
    (case for_symbols env (slice symbols i (i + batch_size))
            (tr @ [Print (batch_message symbols batch_size i)]) of
      (Inl e, tr1) \<Rightarrow> (Inl e, tr1)
    | (Inr u, tr1) \<Rightarrow> for_batches env symbols batch_size rest tr1)"

definition process_symbols_in_batches ::
  "env \<Rightarrow> string list \<Rightarrow> int \<Rightarrow> event list \<Rightarrow> (exn + unit) \<times> event list" where
  "process_symbols_in_batches env symbols batch_size tr =
    (if batch_size = 0 then (Inl (ValueError ''range() arg 3 must not be zero''), tr)
     else for_batches env symbols batch_size (py_range 0 (int (length symbols)) batch_size) tr)"

section \<open>Reading a trace\<close>

primrec requests_of :: "event list \<Rightarrow> request list" where
  "requests_of [] = []"
| "requests_of (ev # evs) = (case ev of Request r \<Rightarrow> r # requests_of evs | _ \<Rightarrow> requests_of evs)"

text \<open>The chunk fetches of the loop over a list of windows, each followed by its pause:
  what every fetch returned, and the trace afterwards.\<close>

fun fetch_chunks ::
  "env \<Rightarrow> string \<Rightarrow> (instant \<times> instant) list \<Rightarrow> event list \<Rightarrow> frame option list \<times> event list" where
  "fetch_chunks env symbol [] tr = ([], tr)"
| "fetch_chunks env symbol (w # ws) tr =
    (case fetch_historical_data_chunk env symbol (fst w) (snd w) tr of
      (r, tr1) \<Rightarrow>
        (case fetch_chunks env symbol ws (tr1 @ [Sleep 1]) of
          (rs, tr2) \<Rightarrow> ((case r of Inr chunk_df \<Rightarrow> chunk_df | Inl x \<Rightarrow> None) # rs, tr2)))"


text \<open>The number of one-second pauses in a trace.\<close>

definition sleeps :: "event list \<Rightarrow> nat" where
  "sleeps tr = length (filter (\<lambda>ev. ev = Sleep 1) tr)"

text \<open>A trace is paced when every request is followed by its one-second pause, with at
  most the diagnostic of a failed fetch in between.\<close>

fun paced :: "event list \<Rightarrow> bool" where
  "paced [] = True"
| "paced (Request r # Sleep n # evs) = (n = 1 \<and> paced evs)"
| "paced (Request r # Print m # Sleep n # evs) = (n = 1 \<and> paced evs)"
| "paced (Request r # evs) = False"
| "paced (ev # evs) = paced evs"

text \<open>What the file system answers to an event, given the trace before it.\<close>

fun raises :: "env \<Rightarrow> event list \<Rightarrow> event \<Rightarrow> exn option" where
  "raises env tr (MakeDirs d) = makedirs env tr d"
| "raises env tr (ToCsv p df) = to_csv env tr p df"
| "raises env tr ev = None"

text \<open>The files a trace writes, in order, each with the frame written; and the directories
  it creates, in order.\<close>

primrec writes :: "event list \<Rightarrow> (string \<times> frame) list" where
  "writes [] = []"
| "writes (ev # evs) = (case ev of ToCsv p df \<Rightarrow> (p, df) # writes evs | _ \<Rightarrow> writes evs)"

primrec dirs_made :: "event list \<Rightarrow> string list" where
  "dirs_made [] = []"
| "dirs_made (ev # evs) = (case ev of MakeDirs d \<Rightarrow> d # dirs_made evs | _ \<Rightarrow> dirs_made evs)"

section \<open>The parts of process_symbol\<close>

text \<open>The directory a symbol's processing computes from the clock, the fetch it makes, and
  the write step on the fetched frame.\<close>

definition symbol_dir :: "env \<Rightarrow> event list \<Rightarrow> string" where
  "symbol_dir env tr = output_dir_name (now env tr - timedelta (5 * 365)) (now env tr)"

definition symbol_fetch :: "env \<Rightarrow> string \<Rightarrow> event list \<Rightarrow> (exn + frame option) \<times> event list" where
  "symbol_fetch env symbol tr =
    fetch_historical_data env symbol (now env tr - timedelta (5 * 365)) (now env tr)
      (tr @ [MakeDirs (symbol_dir env tr)])"

definition symbol_save :: "env \<Rightarrow> string \<Rightarrow> frame \<Rightarrow> event list \<Rightarrow> (exn + unit) \<times> event list" where
  "symbol_save env symbol df tr =
    save_symbol env (symbol_dir env tr) symbol df (snd (symbol_fetch env symbol tr))"

text \<open>The directory of a run whose clock shows the day \<open>d\<close>.\<close>

definition run_dir :: "int \<Rightarrow> string" where
  "run_dir d = ''market_data_export_'' @ isoformat (d - 5 * 365) @ ''_to_'' @ isoformat d"

section \<open>The symbols a run reaches\<close>

text \<open>
  The symbols the inner loop reaches in a batch, in order, each with the trace at the moment
  its processing begins: the clock of that symbol is read at that trace. The loop goes on
  to the next symbol when the processing of the current one returns, and stops when it
  raises.
\<close>

fun reached_symbols :: "env \<Rightarrow> string list \<Rightarrow> event list \<Rightarrow> (string \<times> event list) list" where
  "reached_symbols env [] tr = []"
| "reached_symbols env (symbol # batch) tr =
    (symbol, tr) #
      (case process_symbol env symbol tr of
        (Inl e, tr1) \<Rightarrow> []
      | (Inr u, tr1) \<Rightarrow> reached_symbols env batch tr1)"

text \<open>The same for the outer loop over the batches, and for a run.\<close>

fun reached_batches ::
  "env \<Rightarrow> string list \<Rightarrow> int \<Rightarrow> int list \<Rightarrow> event list \<Rightarrow> (string \<times> event list) list" where
  "reached_batches env symbols batch_size [] tr = []"
| "reached_batches env symbols batch_size (i # rest) tr =
    reached_symbols env (slice symbols i (i + batch_size)) (tr @ [Print (batch_message symbols batch_size i)]) @
      (case for_symbols env (slice symbols i (i + batch_size))
              (tr @ [Print (batch_message symbols batch_size i)]) of
        (Inl e, tr1) \<Rightarrow> []
      | (Inr u, tr1) \<Rightarrow> reached_batches env symbols batch_size rest tr1)"

definition reached :: "env \<Rightarrow> string list \<Rightarrow> int \<Rightarrow> event list \<Rightarrow> (string \<times> event list) list" where
  "reached env symbols batch_size tr =
    (if batch_size = 0 then []
     else reached_batches env symbols batch_size (py_range 0 (int (length symbols)) batch_size) tr)"

text \<open>The files that the processing of a symbol, begun at the trace \<open>tr\<close>, writes.\<close>

definition symbol_writes :: "env \<Rightarrow> string \<Rightarrow> event list \<Rightarrow> (string \<times> frame) list" where
  "symbol_writes env symbol tr = drop (length (writes tr)) (writes (snd (process_symbol env symbol tr)))"

section \<open>Properties of frames and traces\<close>

text \<open>A frame in the requested format: no index levels, the seven columns, one cell per
  column in every row.\<close>

definition formatted :: "frame \<Rightarrow> bool" where
  "formatted df = (index_names df = [] \<and> columns df = canonical \<and>
     list_all (\<lambda>row. length row = length canonical) (data df))"

text \<open>A trace is quiet when no event in it raised; it is halted by \<open>x\<close> when its last
  event raised \<open>x\<close> and nothing before it raised.\<close>

definition quiet :: "env \<Rightarrow> event list \<Rightarrow> bool" where
  "quiet env tr = (\<forall>pre ev post. tr = pre @ ev # post \<longrightarrow> raises env pre ev = None)"

definition halted :: "env \<Rightarrow> event list \<Rightarrow> exn \<Rightarrow> bool" where
  "halted env tr x = (\<exists>pre ev. tr = pre @ [ev] \<and> quiet env pre \<and> raises env pre ev = Some x)"

definition run_ok :: "env \<Rightarrow> exn + unit \<Rightarrow> event list \<Rightarrow> bool" where
  "run_ok env r tr = (case r of Inr u \<Rightarrow> quiet env tr | Inl x \<Rightarrow> quiet env tr \<or> halted env tr x)"

section \<open>Sample worlds\<close>

text \<open>A frame as the provider's client returns it: indexed by symbol and timestamp, with
  the bar's fields and two more columns.\<close>

definition raw_bars :: frame where
  "raw_bars =
    \<lparr>index_names = [''symbol'', ''timestamp''],
     columns = [''open'', ''high'', ''low'', ''close'', ''volume'', ''trade_count'', ''vwap''],
     data = [[Str ''TEST'', Timestamp (2 * day + 18000000000), Num 10, Num 12, Num 9, Num 11, Num 1000, Num 50, Num (21 / 2)],
             [Str ''TEST'', Timestamp (1 * day + 18000000000), Num 11, Num 13, Num 10, Num 12, Num 2000, Num 60, Num (23 / 2)]]\<rparr>"

text \<open>A provider frame of one bar, dated 2022-01-08.\<close>

definition one_bar :: frame where
  "one_bar =
    \<lparr>index_names = [''symbol'', ''timestamp''],
     columns = [''open'', ''high'', ''low'', ''close'', ''volume'', ''trade_count'', ''vwap''],
     data = [[Str ''TEST'', Timestamp (19000 * day + 18000000000), Num 10, Num 12, Num 9, Num 11, Num 1000, Num 50, Num (21 / 2)]]\<rparr>"

text \<open>A frame with no timestamp, and a frame with no rows.\<close>

definition no_timestamp :: frame where
  "no_timestamp = \<lparr>index_names = [''symbol''], columns = [''open''], data = [[Str ''TEST'', Num 10]]\<rparr>"

definition no_rows :: frame where
  "no_rows = \<lparr>index_names = [''symbol'', ''timestamp''],
     columns = [''open'', ''high'', ''low'', ''close'', ''volume'', ''trade_count'', ''vwap''], data = []\<rparr>"

text \<open>A world whose provider always gives the same answer, whose clock stands still and
  whose file system never fails.\<close>

definition fixed_env :: "(exn + frame option) \<Rightarrow> instant \<Rightarrow> env" where
  "fixed_env answer t =
    \<lparr>get_stock_bars = (\<lambda>tr req. answer), now = (\<lambda>tr. t),
     makedirs = (\<lambda>tr d. None), to_csv = (\<lambda>tr p df. None)\<rparr>"

text \<open>A world whose provider fails on a request that starts at instant 0 and returns two
  bars on every other request.\<close>

definition second_window_env :: env where
  "second_window_env =
    \<lparr>get_stock_bars = (\<lambda>tr req. if bars_start req = Some 0 then Inl (OtherError ''timeout'') else Inr (Some raw_bars)),
     now = (\<lambda>tr. timedelta 1825), makedirs = (\<lambda>tr d. None), to_csv = (\<lambda>tr p df. None)\<rparr>"

text \<open>A world whose clock passes midnight after the first reading; its provider answers a
  request that starts before day 19000 with no data, and any other with one bar.\<close>

definition midnight_env :: env where
  "midnight_env =
    \<lparr>get_stock_bars = (\<lambda>tr req. case bars_start req of
                              Some t \<Rightarrow> if t < timedelta 19000 then Inr None else Inr (Some one_bar)
                            | None \<Rightarrow> Inr (Some one_bar)),
     now = (\<lambda>tr. if length tr < 2 then timedelta 20000 - 1 else timedelta 20000 + 1),
     makedirs = (\<lambda>tr d. None), to_csv = (\<lambda>tr p df. None)\<rparr>"

text \<open>A world where creating a directory fails from the second symbol on, and a world
  where writing a file always fails.\<close>

definition full_disk_env :: env where
  "full_disk_env =
    \<lparr>get_stock_bars = (\<lambda>tr req. Inr None),
     now = (\<lambda>tr. timedelta 20000),
     makedirs = (\<lambda>tr d. if length tr < 2 then None else Some (OtherError ''disk full'')),
     to_csv = (\<lambda>tr p df. None)\<rparr>"

definition read_only_env :: env where
  "read_only_env =
    \<lparr>get_stock_bars = (\<lambda>tr req. case bars_start req of
                              Some t \<Rightarrow> if t < timedelta 19000 then Inr None else Inr (Some one_bar)
                            | None \<Rightarrow> Inr (Some one_bar)),
     now = (\<lambda>tr. timedelta 20000),
     makedirs = (\<lambda>tr d. None),
     to_csv = (\<lambda>tr p df. Some (OtherError ''read-only file system''))\<rparr>"

text \<open>A world whose provider honours the bounds of a request: of the two bars it has, it
  returns those from the request's start on and, when the request has an end, up to it.\<close>

definition in_bounds :: "bars_request \<Rightarrow> cell list \<Rightarrow> bool" where
  "in_bounds req row =
    (case row of
      c # Timestamp t # rest \<Rightarrow>
        (case bars_start req of Some s \<Rightarrow> s \<le> t | None \<Rightarrow> True) \<and>
        (case bars_end req of Some e \<Rightarrow> t \<le> e | None \<Rightarrow> True)
    | _ \<Rightarrow> False)"

definition bounded_env :: env where
  "bounded_env =
    \<lparr>get_stock_bars = (\<lambda>tr req. Inr (Some (raw_bars\<lparr>data := filter (in_bounds req) (data raw_bars)\<rparr>))),
     now = (\<lambda>tr. timedelta 20000), makedirs = (\<lambda>tr d. None), to_csv = (\<lambda>tr p df. None)\<rparr>"

section \<open>One chunk\<close>

lemma requests_of_append: "requests_of (xs @ ys) = requests_of xs @ requests_of ys"
  by (induction xs) (auto split: event.splits)

lemma chunk_try_trace: "snd (chunk_try env symbol s e tr) = tr @ [Request (chunk_request symbol s e)]"
  by (simp add: chunk_try_def Let_def split: sum.splits option.splits)

lemma chunk_cases:
  "fetch_historical_data_chunk env symbol s e tr =
    (case fst (chunk_try env symbol s e tr) of
      Inl x \<Rightarrow> (Inr None, tr @ [Request (chunk_request symbol s e), Print (chunk_diagnostic symbol x)])
    | Inr r \<Rightarrow> (Inr r, tr @ [Request (chunk_request symbol s e)]))"
  using chunk_try_trace [of env symbol s e tr]
  by (cases "chunk_try env symbol s e tr") (auto simp: fetch_historical_data_chunk_def split: sum.splits)

text \<open>
  Claim C2 asks that the request carry the window's start and end as its time bounds. A call
  of \<open>fetch_historical_data_chunk\<close> makes exactly one call of the provider, and the request
  object it sends carries the symbol, a time frame of one day, the row limit 1000 and the
  window's start. The window's end is not in it: the source passes it under the keyword
  \<^verbatim>\<open>end_date\<close>, which the request type does not declare, so the field \<^verbatim>\<open>end\<close> of the
  object is \<open>None\<close>, and what the call returns does not depend on the window's end.
\<close>

theorem chunk_request_has_no_end:
  "StockBarsRequest (chunk_request symbol s e) =
     \<lparr>bars_symbol_or_symbols = symbol, bars_timeframe = TimeFrame 1 Day,
      bars_start = Some s, bars_end = None, bars_limit = Some 1000\<rparr> \<and>
   requests_of (snd (fetch_historical_data_chunk env symbol s e tr)) =
     requests_of tr @ [chunk_request symbol s e] \<and>
   fetch_historical_data_chunk env symbol s e tr =
     (case get_stock_bars env tr
             \<lparr>bars_symbol_or_symbols = symbol, bars_timeframe = TimeFrame 1 Day,
              bars_start = Some s, bars_end = None, bars_limit = Some 1000\<rparr> of
        Inl x \<Rightarrow> (Inr None, tr @ [Request (chunk_request symbol s e), Print (chunk_diagnostic symbol x)])
      | Inr None \<Rightarrow> (Inr None, tr @ [Request (chunk_request symbol s e)])
      | Inr (Some df) \<Rightarrow>
          if df_empty df then (Inr None, tr @ [Request (chunk_request symbol s e)])
          else (case format_frame df of
                  Inl x \<Rightarrow> (Inr None, tr @ [Request (chunk_request symbol s e), Print (chunk_diagnostic symbol x)])
                | Inr df' \<Rightarrow> (Inr (Some df'), tr @ [Request (chunk_request symbol s e)]))) \<and>
   fst (fetch_historical_data_chunk env symbol s e tr) = fst (fetch_historical_data_chunk env symbol s e' tr)"
proof -
  have 1: "StockBarsRequest (chunk_request symbol s e) =
     \<lparr>bars_symbol_or_symbols = symbol, bars_timeframe = TimeFrame 1 Day,
      bars_start = Some s, bars_end = None, bars_limit = Some 1000\<rparr>" for e
    by (simp add: StockBarsRequest_def chunk_request_def)
  have 2: "requests_of (snd (fetch_historical_data_chunk env symbol s e tr)) =
     requests_of tr @ [chunk_request symbol s e]"
    by (simp add: chunk_cases requests_of_append split: sum.splits)
  have 3: "fetch_historical_data_chunk env symbol s e tr =
     (case get_stock_bars env tr
             \<lparr>bars_symbol_or_symbols = symbol, bars_timeframe = TimeFrame 1 Day,
              bars_start = Some s, bars_end = None, bars_limit = Some 1000\<rparr> of
        Inl x \<Rightarrow> (Inr None, tr @ [Request (chunk_request symbol s e), Print (chunk_diagnostic symbol x)])
      | Inr None \<Rightarrow> (Inr None, tr @ [Request (chunk_request symbol s e)])
      | Inr (Some df) \<Rightarrow>
          if df_empty df then (Inr None, tr @ [Request (chunk_request symbol s e)])
          else (case format_frame df of
                  Inl x \<Rightarrow> (Inr None, tr @ [Request (chunk_request symbol s e), Print (chunk_diagnostic symbol x)])
                | Inr df' \<Rightarrow> (Inr (Some df'), tr @ [Request (chunk_request symbol s e)])))" for e
    unfolding fetch_historical_data_chunk_def chunk_try_def Let_def 1
    by (simp split: sum.splits option.splits)
  have 4: "fst (fetch_historical_data_chunk env symbol s e tr) = fst (fetch_historical_data_chunk env symbol s e' tr)"
    unfolding 3 by (simp split: sum.splits option.splits)
  from 1 2 3 4 show ?thesis by blast
qed

lemma format_raw_bars:
  "format_frame raw_bars =
    Inr \<lparr>index_names = [], columns = canonical,
         data = [[DateC 2, Str ''TEST'', Num 10, Num 12, Num 9, Num 11, Num 1000],
                 [DateC 1, Str ''TEST'', Num 11, Num 13, Num 10, Num 12, Num 2000]]\<rparr>"
  by (simp add: format_frame_def raw_bars_def reset_index_def getitem_def cell_at_def row_cells_def
      setitem_def rename_def rename_map_def select_columns_def canonical_def date_of_def day_def)

lemma bounded_answer:
  "bars_start req = Some 0 \<Longrightarrow> bars_end req = None \<Longrightarrow> get_stock_bars bounded_env tr req = Inr (Some raw_bars)"
  by (simp add: bounded_env_def raw_bars_def in_bounds_def day_def)

lemma bounded_answer_end:
  "bars_start req = Some 0 \<Longrightarrow> bars_end req = Some (timedelta 2) \<Longrightarrow>
   get_stock_bars bounded_env tr req =
   Inr (Some (raw_bars\<lparr>data := [[Str ''TEST'', Timestamp (1 * day + 18000000000), Num 11, Num 13, Num 10, Num 12, Num 2000, Num 60, Num (23 / 2)]]\<rparr>))"
  by (simp add: bounded_env_def raw_bars_def in_bounds_def day_def timedelta_def)

text \<open>
  A provider that honours the bounds of a request: asked for the window from instant 0 to
  the start of day 2 it returns the bar of day 1 only. The chunk fetch for that window
  returns the bar of day 2 as well, since its request has no end.
\<close>

theorem chunk_request_has_no_end_witness:
  "bars_end (StockBarsRequest (chunk_request ''TEST'' 0 (timedelta 2))) = None \<and>
   get_stock_bars bounded_env []
     \<lparr>bars_symbol_or_symbols = ''TEST'', bars_timeframe = TimeFrame 1 Day,
      bars_start = Some 0, bars_end = Some (timedelta 2), bars_limit = Some 1000\<rparr> =
     Inr (Some (raw_bars\<lparr>data := [[Str ''TEST'', Timestamp (1 * day + 18000000000),
                                       Num 11, Num 13, Num 10, Num 12, Num 2000, Num 60, Num (23 / 2)]]\<rparr>)) \<and>
   fetch_historical_data_chunk bounded_env ''TEST'' 0 (timedelta 2) [] =
     (Inr (Some \<lparr>index_names = [], columns = canonical,
         data = [[DateC 2, Str ''TEST'', Num 10, Num 12, Num 9, Num 11, Num 1000],
                 [DateC 1, Str ''TEST'', Num 11, Num 13, Num 10, Num 12, Num 2000]]\<rparr>),
      [Request (chunk_request ''TEST'' 0 (timedelta 2))])"
proof -
  have e: "\<not> df_empty raw_bars" by (simp add: df_empty_def raw_bars_def)
  show ?thesis
    using e chunk_request_has_no_end [of "''TEST''" 0 "timedelta 2" bounded_env "[]" 0]
    by (simp add: bounded_answer bounded_answer_end format_raw_bars)
qed

lemma chunk_try_raise:
  "get_stock_bars env tr (StockBarsRequest (chunk_request symbol s e)) = Inl x \<Longrightarrow>
   fst (chunk_try env symbol s e tr) = Inl x"
  by (simp add: chunk_try_def)

lemma chunk_try_format:
  "get_stock_bars env tr (StockBarsRequest (chunk_request symbol s e)) = Inr (Some df) \<Longrightarrow> \<not> df_empty df \<Longrightarrow>
   fst (chunk_try env symbol s e tr) = (case format_frame df of Inl x \<Rightarrow> Inl x | Inr df' \<Rightarrow> Inr (Some df'))"
  by (simp add: chunk_try_def split: sum.splits)

lemma chunk_try_no_data:
  "get_stock_bars env tr (StockBarsRequest (chunk_request symbol s e)) = Inr None \<or>
   (get_stock_bars env tr (StockBarsRequest (chunk_request symbol s e)) = Inr (Some df) \<and> df_empty df) \<Longrightarrow>
   fst (chunk_try env symbol s e tr) = Inr None"
  by (auto simp add: chunk_try_def)

text \<open>
  Claim C3. When the provider call raises, or the provider returns rows and formatting
  them raises, \<open>fetch_historical_data_chunk\<close> prints the diagnostic and returns
  \<open>None\<close>; and whatever the world does, it returns a value and never raises.
\<close>

theorem chunk_contains_failures:
  "(get_stock_bars env tr (StockBarsRequest (chunk_request symbol s e)) = Inl x \<longrightarrow>
      fetch_historical_data_chunk env symbol s e tr =
        (Inr None, tr @ [Request (chunk_request symbol s e), Print (chunk_diagnostic symbol x)])) \<and>
   (get_stock_bars env tr (StockBarsRequest (chunk_request symbol s e)) = Inr (Some df) \<and> \<not> df_empty df \<and> format_frame df = Inl x \<longrightarrow>
      fetch_historical_data_chunk env symbol s e tr =
        (Inr None, tr @ [Request (chunk_request symbol s e), Print (chunk_diagnostic symbol x)])) \<and>
   (\<exists>r. fst (fetch_historical_data_chunk env symbol s e tr) = Inr r)"
proof (intro conjI impI)
  assume "get_stock_bars env tr (StockBarsRequest (chunk_request symbol s e)) = Inl x"
  then show "fetch_historical_data_chunk env symbol s e tr =
        (Inr None, tr @ [Request (chunk_request symbol s e), Print (chunk_diagnostic symbol x)])"
    by (simp add: chunk_cases chunk_try_raise)
next
  assume "get_stock_bars env tr (StockBarsRequest (chunk_request symbol s e)) = Inr (Some df) \<and> \<not> df_empty df \<and> format_frame df = Inl x"
  then show "fetch_historical_data_chunk env symbol s e tr =
        (Inr None, tr @ [Request (chunk_request symbol s e), Print (chunk_diagnostic symbol x)])"
    by (simp add: chunk_cases chunk_try_format)
next
  show "\<exists>r. fst (fetch_historical_data_chunk env symbol s e tr) = Inr r"
    by (simp add: chunk_cases split: sum.splits)
qed

lemma format_no_timestamp: "format_frame no_timestamp = Inl (KeyError ''timestamp'')"
  by (simp add: format_frame_def no_timestamp_def reset_index_def getitem_def)

theorem chunk_contains_failures_witness:
  "fetch_historical_data_chunk (fixed_env (Inl (OtherError ''connection reset'')) 0) ''TEST'' 0 (timedelta 1000) [] =
     (Inr None, [Request (chunk_request ''TEST'' 0 (timedelta 1000)),
                 Print ''Error fetching data chunk for TEST: connection reset'']) \<and>
   fetch_historical_data_chunk (fixed_env (Inr (Some no_timestamp)) 0) ''TEST'' 0 (timedelta 1000) [] =
     (Inr None, [Request (chunk_request ''TEST'' 0 (timedelta 1000)),
                 Print (''Error fetching data chunk for TEST: '' @ [CHR 0x27] @ ''timestamp'' @ [CHR 0x27])]) \<and>
   (\<exists>r. fst (fetch_historical_data_chunk (fixed_env (Inr (Some no_timestamp)) 0) ''TEST'' 0 (timedelta 1000) []) = Inr r)"
  using chunk_contains_failures [of "fixed_env (Inl (OtherError ''connection reset'')) 0" "[]" "''TEST''" 0 "timedelta 1000" "OtherError ''connection reset''" no_timestamp]
        chunk_contains_failures [of "fixed_env (Inr (Some no_timestamp)) 0" "[]" "''TEST''" 0 "timedelta 1000" "KeyError ''timestamp''" no_timestamp]
        format_no_timestamp
  by (simp add: fixed_env_def chunk_diagnostic_def df_empty_def no_timestamp_def)

text \<open>
  Claim C5, as amended. When the provider call succeeds with no frame or with no rows,
  \<open>fetch_historical_data_chunk\<close> returns \<open>None\<close> and prints nothing; when the call
  fails it returns the same \<open>None\<close> and prints the diagnostic. The two outcomes return
  the same value and differ in the trace only.
\<close>

theorem chunk_no_data_same_as_error:
  "(get_stock_bars env tr (StockBarsRequest (chunk_request symbol s e)) = Inr None \<or>
    (get_stock_bars env tr (StockBarsRequest (chunk_request symbol s e)) = Inr (Some df) \<and> df_empty df) \<longrightarrow>
      fetch_historical_data_chunk env symbol s e tr = (Inr None, tr @ [Request (chunk_request symbol s e)])) \<and>
   (get_stock_bars env tr (StockBarsRequest (chunk_request symbol s e)) = Inl x \<longrightarrow>
      fetch_historical_data_chunk env symbol s e tr =
        (Inr None, tr @ [Request (chunk_request symbol s e), Print (chunk_diagnostic symbol x)]))"
proof (intro conjI impI)
  assume "get_stock_bars env tr (StockBarsRequest (chunk_request symbol s e)) = Inr None \<or>
    (get_stock_bars env tr (StockBarsRequest (chunk_request symbol s e)) = Inr (Some df) \<and> df_empty df)"
  then have "fst (chunk_try env symbol s e tr) = Inr None" by (rule chunk_try_no_data)
  then show "fetch_historical_data_chunk env symbol s e tr = (Inr None, tr @ [Request (chunk_request symbol s e)])"
    by (simp add: chunk_cases)
next
  assume "get_stock_bars env tr (StockBarsRequest (chunk_request symbol s e)) = Inl x"
  then show "fetch_historical_data_chunk env symbol s e tr =
        (Inr None, tr @ [Request (chunk_request symbol s e), Print (chunk_diagnostic symbol x)])"
    by (simp add: chunk_cases chunk_try_raise)
qed

theorem chunk_no_data_same_as_error_witness:
  "fetch_historical_data_chunk (fixed_env (Inr (Some no_rows)) 0) ''TEST'' 0 (timedelta 1000) [] =
     (Inr None, [Request (chunk_request ''TEST'' 0 (timedelta 1000))]) \<and>
   fetch_historical_data_chunk (fixed_env (Inl (OtherError ''connection reset'')) 0) ''TEST'' 0 (timedelta 1000) [] =
     (Inr None, [Request (chunk_request ''TEST'' 0 (timedelta 1000)),
                 Print ''Error fetching data chunk for TEST: connection reset''])"
  using chunk_no_data_same_as_error [of "fixed_env (Inr (Some no_rows)) 0" "[]" "''TEST''" 0 "timedelta 1000" no_rows "OtherError ''x''"]
        chunk_no_data_same_as_error [of "fixed_env (Inl (OtherError ''connection reset'')) 0" "[]" "''TEST''" 0 "timedelta 1000" no_rows "OtherError ''connection reset''"]
  by (simp add: fixed_env_def chunk_diagnostic_def df_empty_def no_rows_def)

text \<open>
  Claim C5 as stated fails: a provider that succeeds with zero rows and a provider that
  fails lead to the same returned value.
\<close>

theorem chunk_no_data_indistinguishable:
  "get_stock_bars (fixed_env (Inr (Some no_rows)) 0) [] (StockBarsRequest (chunk_request ''TEST'' 0 (timedelta 1000))) = Inr (Some no_rows) \<and>
   data no_rows = [] \<and>
   get_stock_bars (fixed_env (Inl (OtherError ''connection reset'')) 0) [] (StockBarsRequest (chunk_request ''TEST'' 0 (timedelta 1000)))
     = Inl (OtherError ''connection reset'') \<and>
   fst (fetch_historical_data_chunk (fixed_env (Inr (Some no_rows)) 0) ''TEST'' 0 (timedelta 1000) []) =
   fst (fetch_historical_data_chunk (fixed_env (Inl (OtherError ''connection reset'')) 0) ''TEST'' 0 (timedelta 1000) [])"
  by (simp add: chunk_cases chunk_try_def fixed_env_def df_empty_def no_rows_def)

section \<open>The loop over the windows\<close>

lemma chunk_never_raises: "\<exists>r tr1. fetch_historical_data_chunk env symbol s e tr = (Inr r, tr1)"
  by (simp add: chunk_cases split: sum.splits)

lemma fetch_loop_chunks:
  "fetch_loop env symbol e acc s tr =
    (Inr (fold (\<lambda>r a. keep_chunk a r) (fst (fetch_chunks env symbol (windows s e) tr)) acc),
     snd (fetch_chunks env symbol (windows s e) tr))"
proof (induction env symbol e acc s tr rule: fetch_loop.induct)
  case (1 env symbol e acc s tr)
  show ?case
  proof (cases "s < e")
    case False
    then show ?thesis by (simp add: fetch_loop.simps windows.simps)
  next
    case True
    obtain r tr1 where c: "fetch_historical_data_chunk env symbol s (min (s + timedelta 1000) e) tr = (Inr r, tr1)"
      using chunk_never_raises by blast
    have ih: "fetch_loop env symbol e (keep_chunk acc r) (min (s + timedelta 1000) e + timedelta 1) (tr1 @ [Sleep 1]) =
      (Inr (fold (\<lambda>r a. keep_chunk a r)
             (fst (fetch_chunks env symbol (windows (min (s + timedelta 1000) e + timedelta 1) e) (tr1 @ [Sleep 1])))
             (keep_chunk acc r)),
       snd (fetch_chunks env symbol (windows (min (s + timedelta 1000) e + timedelta 1) e) (tr1 @ [Sleep 1])))"
      using "1.IH" [OF True refl c [symmetric] refl] .
    have w: "windows s e = (s, min (s + timedelta 1000) e) # windows (min (s + timedelta 1000) e + timedelta 1) e"
      using True by (subst windows.simps) (simp add: Let_def)
    show ?thesis
      using True c ih
      by (subst fetch_loop.simps) (simp add: w Let_def split: prod.splits)
  qed
qed

lemma fetch_while_returns:
  "fetch_while env symbol e acc s tr = Some (fetch_loop env symbol e acc s tr)"
proof (induction env symbol e acc s tr rule: fetch_loop.induct)
  case (1 env symbol e acc s tr)
  show ?case
  proof (cases "s < e")
    case False
    then show ?thesis by (simp add: fetch_loop.simps fetch_while.simps)
  next
    case True
    obtain r tr1 where c: "fetch_historical_data_chunk env symbol s (min (s + timedelta 1000) e) tr = (Inr r, tr1)"
      using chunk_never_raises by blast
    have ih: "fetch_while env symbol e (keep_chunk acc r) (min (s + timedelta 1000) e + timedelta 1) (tr1 @ [Sleep 1]) =
      Some (fetch_loop env symbol e (keep_chunk acc r) (min (s + timedelta 1000) e + timedelta 1) (tr1 @ [Sleep 1]))"
      using "1.IH" [OF True refl c [symmetric] refl] .
    show ?thesis
      using True c ih
      by (subst fetch_while.simps, subst fetch_loop.simps) (simp add: Let_def)
  qed
qed


lemma to_dates_length: "to_dates cs = Inr ds \<Longrightarrow> length ds = length cs"
  by (induction cs arbitrary: ds) (auto split: sum.splits)

lemma format_frame_formatted:
  assumes "format_frame df0 = Inr df"
  shows "formatted df \<and> length (data df) = length (data df0)"
proof -
  from assms obtain df1 ts ds where
    r: "reset_index df0 = Inr df1" and g: "getitem df1 ''timestamp'' = Inr ts" and
    t: "to_dates ts = Inr ds" and
    s: "select_columns canonical (rename rename_map (setitem df1 ''Date'' ds)) = Inr df"
    by (auto simp: format_frame_def split: sum.splits)
  from r have df1: "index_names df1 = []" "data df1 = data df0"
    by (auto simp: reset_index_def split: if_splits)
  from g have "length ts = length (data df1)"
    by (auto simp: getitem_def split: if_splits)
  with t have len: "length ds = length (data df0)"
    using to_dates_length df1 by fastforce
  have si: "index_names (setitem df1 ''Date'' ds) = []" "length (data (setitem df1 ''Date'' ds)) = length (data df0)"
    using df1 len by (auto simp: setitem_def Let_def)
  from s si show ?thesis
    by (auto simp: select_columns_def rename_def formatted_def list_all_iff split: list.splits)
qed

lemma chunk_formatted:
  assumes "fetch_historical_data_chunk env symbol s e tr = (Inr (Some df), tr1)"
  shows "formatted df \<and> data df \<noteq> []"
proof -
  from assms have "fst (chunk_try env symbol s e tr) = Inr (Some df)"
    by (auto simp: chunk_cases split: sum.splits)
  then obtain df0 where "\<not> df_empty df0" "format_frame df0 = Inr df"
    by (auto simp: chunk_try_def Let_def split: sum.splits option.splits if_splits)
  then show ?thesis
    using format_frame_formatted [of df0 df] by (auto simp: df_empty_def)
qed

lemma canonical_distinct: "distinct canonical"
  by (simp add: canonical_def)

lemma formatted_not_empty: "formatted df \<Longrightarrow> data df \<noteq> [] \<Longrightarrow> \<not> df_empty df"
  by (simp add: formatted_def df_empty_def canonical_def)

lemma fold_labels_known:
  "set xs \<subseteq> set acc \<Longrightarrow> fold (\<lambda>c acc. if c \<in> set acc then acc else acc @ [c]) xs acc = acc"
  by (induction xs) auto

lemma fold_labels_new:
  "distinct (acc @ xs) \<Longrightarrow> fold (\<lambda>c acc. if c \<in> set acc then acc else acc @ [c]) xs acc = acc @ xs"
  by (induction xs arbitrary: acc) auto

lemma union_labels_same:
  assumes "fs \<noteq> []" "list_all (\<lambda>f. columns f = cs) fs" "distinct cs"
  shows "union_labels (map columns fs) = cs"
proof -
  from assms obtain f rest where fs: "fs = f # rest" by (cases fs) auto
  with assms have "columns f = cs" and "set (concat (map columns rest)) \<subseteq> set cs"
    by (auto simp: list_all_iff)
  then show ?thesis
    using assms(3) by (simp add: union_labels_def fs fold_labels_new fold_labels_known)
qed

lemma cell_at_row:
  assumes "distinct cs" "length row = length cs"
  shows "map (cell_at cs row) cs = row"
proof (rule nth_equalityI)
  show "length (map (cell_at cs row) cs) = length row" using assms by simp
next
  fix i assume "i < length (map (cell_at cs row) cs)"
  then have i: "i < length row" using assms by simp
  have "map_of (zip cs row) (cs ! i) = Some (row ! i)"
    using assms i by (intro map_of_zip_nth) auto
  then show "map (cell_at cs row) cs ! i = row ! i"
    using i assms by (simp add: cell_at_def)
qed

lemma concat_formatted:
  assumes "fs \<noteq> []" "list_all formatted fs"
  shows "concat_frames fs = Inr \<lparr>index_names = [], columns = canonical, data = concat (map data fs)\<rparr>"
proof -
  have u: "union_labels (map columns fs) = canonical"
    using assms by (intro union_labels_same) (auto simp: list_all_iff formatted_def canonical_distinct)
  have "map (\<lambda>row. map (cell_at (columns f) (row_cells f row)) canonical) (data f) = data f"
    if "f \<in> set fs" for f
  proof -
    from that assms have f: "index_names f = []" "columns f = canonical"
      "\<forall>row \<in> set (data f). length row = length canonical"
      by (auto simp: list_all_iff formatted_def)
    then show ?thesis
      by (intro map_idI) (simp add: row_cells_def cell_at_row canonical_distinct)
  qed
  then have "map (\<lambda>f. map (\<lambda>row. map (cell_at (columns f) (row_cells f row)) canonical) (data f)) fs = map data fs"
    by (intro map_cong) auto
  then show ?thesis
    using assms(1) by (simp only: concat_frames_def u if_False)
qed

lemma fetch_chunks_formatted:
  "list_all (\<lambda>r. case r of None \<Rightarrow> True | Some df \<Rightarrow> formatted df \<and> data df \<noteq> [])
     (fst (fetch_chunks env symbol ws tr))"
proof (induction ws arbitrary: tr)
  case Nil
  then show ?case by simp
next
  case (Cons w ws)
  obtain r tr1 where c: "fetch_historical_data_chunk env symbol (fst w) (snd w) tr = (Inr r, tr1)"
    using chunk_never_raises by blast
  show ?case
    using c Cons.IH [of "tr1 @ [Sleep 1]"]
    by (cases r) (auto split: prod.splits dest: chunk_formatted)
qed

lemma fold_keep_chunk:
  "fold (\<lambda>r a. keep_chunk a r) rs acc = acc @ [df. Some df \<leftarrow> rs, \<not> df_empty df]"
  by (induction rs arbitrary: acc) (auto simp: keep_chunk_def split: option.splits)

lemma fetch_historical_data_trace:
  "snd (fetch_historical_data env symbol s e tr) = snd (fetch_chunks env symbol (windows s e) tr)"
  by (simp add: fetch_historical_data_def fetch_loop_chunks split: sum.splits)

lemma fetch_chunks_requests:
  "requests_of (snd (fetch_chunks env symbol ws tr)) =
    requests_of tr @ map (\<lambda>w. chunk_request symbol (fst w) (snd w)) ws"
proof (induction ws arbitrary: tr)
  case Nil
  then show ?case by simp
next
  case (Cons w ws)
  show ?case
    using Cons.IH [of "snd (fetch_historical_data_chunk env symbol (fst w) (snd w) tr) @ [Sleep 1]"]
    by (auto simp: requests_of_append chunk_cases split: prod.splits sum.splits)
qed

lemma kept_chunks_formatted:
  "[df. Some df \<leftarrow> fst (fetch_chunks env symbol ws tr), \<not> df_empty df] =
     [df. Some df \<leftarrow> fst (fetch_chunks env symbol ws tr)] \<and>
   list_all (\<lambda>df. formatted df \<and> data df \<noteq> []) [df. Some df \<leftarrow> fst (fetch_chunks env symbol ws tr)]"
proof -
  have "list_all (\<lambda>r. case r of None \<Rightarrow> True | Some df \<Rightarrow> formatted df \<and> data df \<noteq> []) rs \<Longrightarrow>
    [df. Some df \<leftarrow> rs, \<not> df_empty df] = [df. Some df \<leftarrow> rs] \<and>
    list_all (\<lambda>df. formatted df \<and> data df \<noteq> []) [df. Some df \<leftarrow> rs]" for rs
    by (induction rs) (auto split: option.splits simp: formatted_not_empty)
  then show ?thesis using fetch_chunks_formatted by blast
qed

lemma fetch_historical_data_result:
  "fst (fetch_historical_data env symbol s e tr) =
     (case [df. Some df \<leftarrow> fst (fetch_chunks env symbol (windows s e) tr), \<not> df_empty df] of
        [] \<Rightarrow> Inr None
      | f # fs \<Rightarrow> Inr (Some \<lparr>index_names = [], columns = canonical, data = concat (map data (f # fs))\<rparr>))"
proof -
  define kept where "kept = [df. Some df \<leftarrow> fst (fetch_chunks env symbol (windows s e) tr), \<not> df_empty df]"
  have k: "list_all formatted kept"
    using kept_chunks_formatted [of env symbol "windows s e" tr] by (simp add: list_all_iff kept_def)
  have l: "fetch_loop env symbol e [] s tr = (Inr kept, snd (fetch_chunks env symbol (windows s e) tr))"
    by (simp only: fetch_loop_chunks fold_keep_chunk kept_def append_Nil)
  have "fst (fetch_historical_data env symbol s e tr) =
     (case kept of [] \<Rightarrow> Inr None
      | f # fs \<Rightarrow> Inr (Some \<lparr>index_names = [], columns = canonical, data = concat (map data (f # fs))\<rparr>))"
  proof (cases kept)
    case Nil
    then show ?thesis
      by (simp add: fetch_historical_data_def l)
  next
    case (Cons f fs)
    then have "concat_frames kept = Inr \<lparr>index_names = [], columns = canonical, data = concat (map data (f # fs))\<rparr>"
      using concat_formatted [of kept] k by simp
    then show ?thesis
      using Cons by (simp add: fetch_historical_data_def l)
  qed
  then show ?thesis by (simp only: kept_def)
qed

lemma no_kept_chunks: "([df. Some df \<leftarrow> rs] = []) = list_all (\<lambda>r. r = None) rs"
  by (induction rs) (auto split: option.splits)

text \<open>
  Claim C4. \<open>fetch_historical_data\<close> returns the rows of the chunk results that hold data,
  concatenated in the order of the windows, under the seven columns. It returns \<open>None\<close>
  exactly when every window's fetch returned \<open>None\<close>; a frame it returns is never
  empty; and when \<open>end_date \<le> start_date\<close> there is no window and it returns \<open>None\<close>.
\<close>

theorem fetch_historical_data_concatenates:
  "fst (fetch_historical_data env symbol s e tr) =
     (case [df. Some df \<leftarrow> fst (fetch_chunks env symbol (windows s e) tr), \<not> df_empty df] of
        [] \<Rightarrow> Inr None
      | f # fs \<Rightarrow> Inr (Some \<lparr>index_names = [], columns = canonical, data = concat (map data (f # fs))\<rparr>)) \<and>
   (fst (fetch_historical_data env symbol s e tr) = Inr None \<longleftrightarrow>
      list_all (\<lambda>r. r = None) (fst (fetch_chunks env symbol (windows s e) tr))) \<and>
   (\<forall>df. fst (fetch_historical_data env symbol s e tr) = Inr (Some df) \<longrightarrow> \<not> df_empty df) \<and>
   (e \<le> s \<longrightarrow> windows s e = [] \<and> fst (fetch_historical_data env symbol s e tr) = Inr None)"
proof -
  define rs where "rs = fst (fetch_chunks env symbol (windows s e) tr)"
  define kept where "kept = [df. Some df \<leftarrow> rs, \<not> df_empty df]"
  have k: "kept = [df. Some df \<leftarrow> rs]" "list_all (\<lambda>df. formatted df \<and> data df \<noteq> []) kept"
    using kept_chunks_formatted [of env symbol "windows s e" tr] by (simp_all only: kept_def rs_def)
  have r: "fst (fetch_historical_data env symbol s e tr) =
     (case kept of [] \<Rightarrow> Inr None
      | f # fs \<Rightarrow> Inr (Some \<lparr>index_names = [], columns = canonical, data = concat (map data (f # fs))\<rparr>))"
    by (simp only: kept_def rs_def fetch_historical_data_result)
  have n: "(kept = []) = list_all (\<lambda>r. r = None) rs"
    by (simp only: k(1) no_kept_chunks)
  have 1: "fst (fetch_historical_data env symbol s e tr) = Inr None \<longleftrightarrow> list_all (\<lambda>r. r = None) rs"
    using n by (cases kept) (simp_all add: r)
  have 2: "\<not> df_empty df" if "fst (fetch_historical_data env symbol s e tr) = Inr (Some df)" for df
  proof -
    from that obtain f fs where kf: "kept = f # fs" and
      df: "df = \<lparr>index_names = [], columns = canonical, data = concat (map data (f # fs))\<rparr>"
      by (cases kept) (simp_all add: r)
    from k(2) kf have "data f \<noteq> []" by simp
    then show ?thesis by (simp add: df df_empty_def canonical_def)
  qed
  have 3: "windows s e = []" if "e \<le> s"
    using that by (simp add: windows.simps)
  have 4: "fst (fetch_historical_data env symbol s e tr) = Inr None" if "e \<le> s"
    using 3 [OF that] by (simp add: r kept_def rs_def)
  from r 1 2 3 4 have
    "fst (fetch_historical_data env symbol s e tr) =
       (case kept of [] \<Rightarrow> Inr None
        | f # fs \<Rightarrow> Inr (Some \<lparr>index_names = [], columns = canonical, data = concat (map data (f # fs))\<rparr>)) \<and>
     (fst (fetch_historical_data env symbol s e tr) = Inr None \<longleftrightarrow> list_all (\<lambda>r. r = None) rs) \<and>
     (\<forall>df. fst (fetch_historical_data env symbol s e tr) = Inr (Some df) \<longrightarrow> \<not> df_empty df) \<and>
     (e \<le> s \<longrightarrow> windows s e = [] \<and> fst (fetch_historical_data env symbol s e tr) = Inr None)"
    by blast
  then show ?thesis
    unfolding kept_def rs_def .
qed

lemma windows_1825: "windows 0 (timedelta 1825) = [(0, timedelta 1000), (timedelta 1001, timedelta 1825)]"
  by (simp add: windows.simps timedelta_def day_def)

lemma second_window_chunks:
  "fst (fetch_chunks second_window_env ''TEST'' (windows 0 (timedelta 1825)) []) =
    [None, Some \<lparr>index_names = [], columns = canonical,
         data = [[DateC 2, Str ''TEST'', Num 10, Num 12, Num 9, Num 11, Num 1000],
                 [DateC 1, Str ''TEST'', Num 11, Num 13, Num 10, Num 12, Num 2000]]\<rparr>]"
proof -
  have e: "\<not> df_empty raw_bars" by (simp add: df_empty_def raw_bars_def)
  have t: "timedelta 1001 \<noteq> 0" by (simp add: timedelta_def day_def)
  show ?thesis
    using e t
    by (simp add: windows_1825 chunk_cases chunk_try_def second_window_env_def chunk_request_def StockBarsRequest_def format_raw_bars)
qed

lemma no_rows_chunks:
  "fst (fetch_chunks (fixed_env (Inr (Some no_rows)) 0) ''TEST'' (windows 0 (timedelta 1825)) []) = [None, None]"
  by (simp add: windows_1825 chunk_cases chunk_try_def fixed_env_def df_empty_def no_rows_def)

theorem fetch_historical_data_concatenates_witness:
  "fst (fetch_chunks second_window_env ''TEST'' (windows 0 (timedelta 1825)) []) =
     [None, Some \<lparr>index_names = [], columns = canonical,
         data = [[DateC 2, Str ''TEST'', Num 10, Num 12, Num 9, Num 11, Num 1000],
                 [DateC 1, Str ''TEST'', Num 11, Num 13, Num 10, Num 12, Num 2000]]\<rparr>] \<and>
   fst (fetch_historical_data second_window_env ''TEST'' 0 (timedelta 1825) []) =
     Inr (Some \<lparr>index_names = [], columns = canonical,
         data = [[DateC 2, Str ''TEST'', Num 10, Num 12, Num 9, Num 11, Num 1000],
                 [DateC 1, Str ''TEST'', Num 11, Num 13, Num 10, Num 12, Num 2000]]\<rparr>) \<and>
   fst (fetch_chunks (fixed_env (Inr (Some no_rows)) 0) ''TEST'' (windows 0 (timedelta 1825)) []) = [None, None] \<and>
   fst (fetch_historical_data (fixed_env (Inr (Some no_rows)) 0) ''TEST'' 0 (timedelta 1825) []) = Inr None \<and>
   windows 5 5 = [] \<and>
   fst (fetch_historical_data second_window_env ''TEST'' 5 5 []) = Inr None"
  using fetch_historical_data_concatenates [of second_window_env "''TEST''" 0 "timedelta 1825" "[]"]
        fetch_historical_data_concatenates [of "fixed_env (Inr (Some no_rows)) 0" "''TEST''" 0 "timedelta 1825" "[]"]
        fetch_historical_data_concatenates [of second_window_env "''TEST''" 5 5 "[]"]
  by (simp add: second_window_chunks no_rows_chunks df_empty_def canonical_def)

text \<open>
  Claim C1 asks that the last window end at \<open>end_date\<close>. For a range of 1001 days the
  loop asks for the single window of the first 1000 days: the next start,
  \<open>start_date + 1001\<close> days, is not before \<open>end_date\<close>, so the loop stops and the
  day \<open>end_date\<close> is never requested.
\<close>

theorem last_day_never_requested:
  "windows 0 (timedelta 1001) = [(0, timedelta 1000)] \<and>
   requests_of (snd (fetch_historical_data env symbol 0 (timedelta 1001) [])) =
     [\<lparr>symbol_or_symbols = symbol, timeframe = TimeFrame 1 Day, start = 0, end_date = timedelta 1000, limit = 1000\<rparr>]"
proof -
  have w: "windows 0 (timedelta 1001) = [(0, timedelta 1000)]"
    by (simp add: windows.simps timedelta_def day_def)
  show ?thesis
    by (simp add: w fetch_historical_data_trace fetch_chunks_requests chunk_request_def del: fetch_chunks.simps)
qed

theorem last_day_never_requested_witness:
  "requests_of (snd (fetch_historical_data second_window_env ''TEST'' 0 (timedelta 1001) [])) =
     [\<lparr>symbol_or_symbols = ''TEST'', timeframe = TimeFrame 1 Day, start = 0, end_date = timedelta 1000, limit = 1000\<rparr>]"
  using last_day_never_requested [of second_window_env "''TEST''"] by simp

section \<open>One symbol, one batch, one run\<close>

lemma fetch_never_raises: "\<exists>r. fst (fetch_historical_data env symbol s e tr) = Inr r"
  by (simp add: fetch_historical_data_result split: list.splits)

lemma fetch_result_frame:
  assumes "fst (fetch_historical_data env symbol s e tr) = Inr (Some df)"
  shows "columns df = canonical \<and> index_names df = [] \<and> \<not> df_empty df"
proof -
  define kept where "kept = [df. Some df \<leftarrow> fst (fetch_chunks env symbol (windows s e) tr), \<not> df_empty df]"
  have k: "list_all (\<lambda>df. formatted df \<and> data df \<noteq> []) kept"
    using kept_chunks_formatted [of env symbol "windows s e" tr] by (simp only: kept_def)
  have r: "fst (fetch_historical_data env symbol s e tr) =
     (case kept of [] \<Rightarrow> Inr None
      | f # fs \<Rightarrow> Inr (Some \<lparr>index_names = [], columns = canonical, data = concat (map data (f # fs))\<rparr>))"
    by (simp only: kept_def fetch_historical_data_result)
  from assms obtain f fs where kf: "kept = f # fs" and
    df: "df = \<lparr>index_names = [], columns = canonical, data = concat (map data (f # fs))\<rparr>"
    by (cases kept) (simp_all add: r)
  from k kf have "data f \<noteq> []" by simp
  then show ?thesis by (simp add: df df_empty_def canonical_def)
qed

lemma process_symbol_cases:
  "process_symbol env symbol tr =
    (case makedirs env tr (symbol_dir env tr) of
      Some x \<Rightarrow> (Inl x, tr @ [MakeDirs (symbol_dir env tr)])
    | None \<Rightarrow>
        (case fst (symbol_fetch env symbol tr) of
          Inr (Some df) \<Rightarrow>
            (case fst (symbol_save env symbol df tr) of
              Inl x \<Rightarrow> (Inl x, snd (symbol_save env symbol df tr))
            | Inr u \<Rightarrow> (Inr (), snd (symbol_save env symbol df tr) @ [Sleep 1]))
        | _ \<Rightarrow> (Inr (), snd (symbol_fetch env symbol tr) @ [Sleep 1])))"
proof -
  let ?f = "fetch_historical_data env symbol (now env tr - timedelta (5 * 365)) (now env tr)
      (tr @ [MakeDirs (output_dir_name (now env tr - timedelta (5 * 365)) (now env tr))])"
  obtain r where r: "fst ?f = Inr r"
    using fetch_never_raises by blast
  then consider "fst ?f = Inr None" | df where "fst ?f = Inr (Some df)" "\<not> df_empty df"
    using fetch_result_frame [of env symbol _ _ _ "the r"] by (cases r) auto
  then show ?thesis
  proof cases
    case 1
    then show ?thesis
      unfolding process_symbol_def symbol_dir_def symbol_fetch_def symbol_save_def Let_def
      by (cases ?f) (simp split: option.splits)
  next
    case 2
    then show ?thesis
      unfolding process_symbol_def symbol_dir_def symbol_fetch_def symbol_save_def Let_def
      by (cases ?f) (simp split: option.splits sum.splits prod.splits)
  qed
qed

lemma for_symbols_Cons:
  "for_symbols env (symbol # batch) tr =
    (case fst (process_symbol env symbol tr) of
      Inl x \<Rightarrow> (Inl x, snd (process_symbol env symbol tr))
    | Inr u \<Rightarrow> for_symbols env batch (snd (process_symbol env symbol tr)))"
  by (cases "process_symbol env symbol tr") (simp split: sum.splits)

lemma for_batches_Cons:
  "for_batches env symbols batch_size (i # rest) tr =
    (case fst (for_symbols env (slice symbols i (i + batch_size)) (tr @ [Print (batch_message symbols batch_size i)])) of
      Inl x \<Rightarrow> (Inl x, snd (for_symbols env (slice symbols i (i + batch_size)) (tr @ [Print (batch_message symbols batch_size i)])))
    | Inr u \<Rightarrow> for_batches env symbols batch_size rest
        (snd (for_symbols env (slice symbols i (i + batch_size)) (tr @ [Print (batch_message symbols batch_size i)]))))"
  by (cases "for_symbols env (slice symbols i (i + batch_size)) (tr @ [Print (batch_message symbols batch_size i)])")
     (simp split: sum.splits)

lemma fetch_chunks_Cons:
  "fetch_chunks env symbol (w # ws) tr =
    ((case fst (fetch_historical_data_chunk env symbol (fst w) (snd w) tr) of Inr chunk_df \<Rightarrow> chunk_df | Inl x \<Rightarrow> None) #
       fst (fetch_chunks env symbol ws (snd (fetch_historical_data_chunk env symbol (fst w) (snd w) tr) @ [Sleep 1])),
     snd (fetch_chunks env symbol ws (snd (fetch_historical_data_chunk env symbol (fst w) (snd w) tr) @ [Sleep 1])))"
  by (simp split: prod.splits)

lemma save_symbol_cases:
  "save_symbol env output_dir symbol df0 tr =
    (case sort_values df0 ''Date'' of
      Inl x \<Rightarrow> (Inl x, tr)
    | Inr df \<Rightarrow>
        (case to_csv env tr (output_file_name output_dir symbol) df of
          Some x \<Rightarrow> (Inl x, tr @ [ToCsv (output_file_name output_dir symbol) df])
        | None \<Rightarrow>
            (case saved_message symbol df of
              Inl x \<Rightarrow> (Inl x, tr @ [ToCsv (output_file_name output_dir symbol) df])
            | Inr msg \<Rightarrow> (Inr (), tr @ [ToCsv (output_file_name output_dir symbol) df, Print msg]))))"
  by (simp add: save_symbol_def Let_def split: sum.splits option.splits)


section \<open>Sample runs\<close>

text \<open>Five runs, evaluated: the model prints what the program prints.\<close>

lemma run_fixed:
  "process_symbols_in_batches (fixed_env (Inr (Some one_bar)) (timedelta 20000)) [''TEST''] 50 [] =
    (Inr (),
  [Print ''Processing batch 1 of 1'',
   MakeDirs ''market_data_export_2019-10-06_to_2024-10-04'',
   Request
    \<lparr>symbol_or_symbols = ''TEST'', timeframe = TimeFrame 1 Day,
       start = 1570320000000000, end_date = 1656720000000000, limit = 1000\<rparr>,
   Sleep 1,
   Request
    \<lparr>symbol_or_symbols = ''TEST'', timeframe = TimeFrame 1 Day,
       start = 1656806400000000, end_date = 1728000000000000, limit = 1000\<rparr>,
   Sleep 1,
   ToCsv ''market_data_export_2019-10-06_to_2024-10-04/TEST_data.csv''
    \<lparr>index_names = [],
       columns =
         canonical,
       data =
         [[DateC 19000, Str ''TEST'', Num 10, Num 12, Num 9, Num 11,
           Num 1000],
          [DateC 19000, Str ''TEST'', Num 10, Num 12, Num 9, Num 11,
           Num 1000]]\<rparr>,
   Print ''Saved data for TEST from 2022-01-08 to 2022-01-08'', Sleep 1])"
  by code_simp

lemma run_midnight:
  "process_symbols_in_batches midnight_env [''A'', ''B''] 50 [] =
    (Inr (),
  [Print ''Processing batch 1 of 1'',
   MakeDirs ''market_data_export_2019-10-05_to_2024-10-03'',
   Request
    \<lparr>symbol_or_symbols = ''A'', timeframe = TimeFrame 1 Day,
       start = 1570319999999999, end_date = 1656719999999999, limit = 1000\<rparr>,
   Sleep 1,
   Request
    \<lparr>symbol_or_symbols = ''A'', timeframe = TimeFrame 1 Day,
       start = 1656806399999999, end_date = 1727999999999999, limit = 1000\<rparr>,
   Sleep 1,
   ToCsv ''market_data_export_2019-10-05_to_2024-10-03/A_data.csv''
    \<lparr>index_names = [],
       columns =
         canonical,
       data =
         [[DateC 19000, Str ''TEST'', Num 10, Num 12, Num 9, Num 11,
           Num 1000]]\<rparr>,
   Print ''Saved data for A from 2022-01-08 to 2022-01-08'', Sleep 1,
   MakeDirs ''market_data_export_2019-10-06_to_2024-10-04'',
   Request
    \<lparr>symbol_or_symbols = ''B'', timeframe = TimeFrame 1 Day,
       start = 1570320000000001, end_date = 1656720000000001, limit = 1000\<rparr>,
   Sleep 1,
   Request
    \<lparr>symbol_or_symbols = ''B'', timeframe = TimeFrame 1 Day,
       start = 1656806400000001, end_date = 1728000000000001, limit = 1000\<rparr>,
   Sleep 1,
   ToCsv ''market_data_export_2019-10-06_to_2024-10-04/B_data.csv''
    \<lparr>index_names = [],
       columns =
         canonical,
       data =
         [[DateC 19000, Str ''TEST'', Num 10, Num 12, Num 9, Num 11,
           Num 1000]]\<rparr>,
   Print ''Saved data for B from 2022-01-08 to 2022-01-08'', Sleep 1])"
  by code_simp

lemma run_full_disk:
  "process_symbols_in_batches full_disk_env [''A'', ''B'', ''C''] 50 [] =
    (Inl (OtherError ''disk full''),
  [Print ''Processing batch 1 of 1'',
   MakeDirs ''market_data_export_2019-10-06_to_2024-10-04'',
   Request
    \<lparr>symbol_or_symbols = ''A'', timeframe = TimeFrame 1 Day,
       start = 1570320000000000, end_date = 1656720000000000, limit = 1000\<rparr>,
   Sleep 1,
   Request
    \<lparr>symbol_or_symbols = ''A'', timeframe = TimeFrame 1 Day,
       start = 1656806400000000, end_date = 1728000000000000, limit = 1000\<rparr>,
   Sleep 1, Sleep 1,
   MakeDirs ''market_data_export_2019-10-06_to_2024-10-04''])"
  by code_simp

lemma run_read_only:
  "process_symbols_in_batches read_only_env [''A'', ''B''] 50 [] =
    (Inl (OtherError ''read-only file system''),
  [Print ''Processing batch 1 of 1'',
   MakeDirs ''market_data_export_2019-10-06_to_2024-10-04'',
   Request
    \<lparr>symbol_or_symbols = ''A'', timeframe = TimeFrame 1 Day,
       start = 1570320000000000, end_date = 1656720000000000, limit = 1000\<rparr>,
   Sleep 1,
   Request
    \<lparr>symbol_or_symbols = ''A'', timeframe = TimeFrame 1 Day,
       start = 1656806400000000, end_date = 1728000000000000, limit = 1000\<rparr>,
   Sleep 1,
   ToCsv ''market_data_export_2019-10-06_to_2024-10-04/A_data.csv''
    \<lparr>index_names = [],
       columns =
         canonical,
       data =
         [[DateC 19000, Str ''TEST'', Num 10, Num 12, Num 9, Num 11,
           Num 1000]]\<rparr>])"
  by code_simp


section \<open>Pacing\<close>

lemma paced_append: "paced xs \<Longrightarrow> paced ys \<Longrightarrow> paced (xs @ ys)"
  by (induction xs rule: paced.induct) auto

lemma sleeps_append: "sleeps (xs @ ys) = sleeps xs + sleeps ys"
  by (simp add: sleeps_def)

lemma sleeps_simps:
  "sleeps [] = 0" "sleeps (Request r # evs) = sleeps evs" "sleeps (Print m # evs) = sleeps evs"
  "sleeps (MakeDirs d # evs) = sleeps evs" "sleeps (ToCsv p df # evs) = sleeps evs"
  "sleeps (Sleep 1 # evs) = Suc (sleeps evs)" "sleeps (Sleep (Suc 0) # evs) = Suc (sleeps evs)"
  by (simp_all add: sleeps_def)

lemma fetch_chunks_paced:
  "\<exists>new. snd (fetch_chunks env symbol ws tr) = tr @ new \<and> paced new \<and>
         sleeps new = length (requests_of new)"
proof (induction ws arbitrary: tr)
  case Nil
  show ?case by (simp add: sleeps_simps)
next
  case (Cons w ws)
  let ?c = "fetch_historical_data_chunk env symbol (fst w) (snd w) tr"
  obtain seg where seg: "snd ?c @ [Sleep 1] = tr @ seg" "paced seg" "sleeps seg = length (requests_of seg)"
    "\<And>evs. paced (seg @ evs) = paced evs"
  proof (cases "fst (chunk_try env symbol (fst w) (snd w) tr)")
    case (Inl x)
    show ?thesis
      by (rule that [of "[Request (chunk_request symbol (fst w) (snd w)), Print (chunk_diagnostic symbol x), Sleep 1]"])
         (simp_all add: chunk_cases Inl sleeps_simps)
  next
    case (Inr r)
    show ?thesis
      by (rule that [of "[Request (chunk_request symbol (fst w) (snd w)), Sleep 1]"])
         (simp_all add: chunk_cases Inr sleeps_simps)
  qed
  from Cons.IH [of "snd ?c @ [Sleep 1]"] obtain new where
    new: "snd (fetch_chunks env symbol ws (snd ?c @ [Sleep 1])) = snd ?c @ [Sleep 1] @ new"
      "paced new" "sleeps new = length (requests_of new)"
    by auto
  show ?case
  proof (intro exI conjI)
    show "snd (fetch_chunks env symbol (w # ws) tr) = tr @ (seg @ new)"
      using new(1) seg(1) by (simp only: fetch_chunks_Cons snd_conv) simp
    show "paced (seg @ new)" using seg(4) new(2) by simp
    show "sleeps (seg @ new) = length (requests_of (seg @ new))"
      using seg(3) new(3) by (simp add: sleeps_append requests_of_append)
  qed
qed

lemma save_symbol_paced:
  "\<exists>new. snd (save_symbol env output_dir symbol df tr) = tr @ new \<and> paced new \<and>
         sleeps new = 0 \<and> requests_of new = []"
  by (cases "sort_values df ''Date''")
     (auto simp: save_symbol_cases sleeps_simps split: option.splits sum.splits)

lemma process_symbol_paced:
  "\<exists>new. snd (process_symbol env symbol tr) = tr @ new \<and> paced new \<and>
     (fst (process_symbol env symbol tr) = Inr () \<longrightarrow>
        (\<exists>mid. new = mid @ [Sleep 1] \<and> paced mid \<and> sleeps mid = length (requests_of mid)))"
proof -
  obtain f where f: "snd (symbol_fetch env symbol tr) = (tr @ [MakeDirs (symbol_dir env tr)]) @ f"
    "paced f" "sleeps f = length (requests_of f)"
    unfolding symbol_fetch_def fetch_historical_data_trace
    using fetch_chunks_paced by blast
  have s: "\<exists>w. snd (symbol_save env symbol df tr) = (tr @ [MakeDirs (symbol_dir env tr)]) @ f @ w \<and> paced w \<and>
         sleeps w = 0 \<and> requests_of w = []" for df
    unfolding symbol_save_def using save_symbol_paced [of env _ symbol df "snd (symbol_fetch env symbol tr)"] f(1)
    by auto
  show ?thesis
  proof (cases "makedirs env tr (symbol_dir env tr)")
    case (Some x)
    then show ?thesis by (simp add: process_symbol_cases)
  next
    case None
    show ?thesis
    proof (cases "fst (symbol_fetch env symbol tr)")
      case (Inl x)
      have "paced (MakeDirs (symbol_dir env tr) # f)" "paced (MakeDirs (symbol_dir env tr) # f @ [Sleep 1])"
        using f(2) by (simp_all add: paced_append)
      then show ?thesis
        using None Inl f
        by (auto simp: process_symbol_cases sleeps_simps requests_of_append
            intro!: exI [of _ "MakeDirs (symbol_dir env tr) # f"])
    next
      case (Inr r)
      show ?thesis
      proof (cases r)
        case N: None
        have "paced (MakeDirs (symbol_dir env tr) # f)" "paced (MakeDirs (symbol_dir env tr) # f @ [Sleep 1])"
          using f(2) by (simp_all add: paced_append)
        then show ?thesis
          using None Inr N f
          by (auto simp: process_symbol_cases sleeps_simps requests_of_append
              intro!: exI [of _ "MakeDirs (symbol_dir env tr) # f"])
      next
        case (Some df)
        from s [of df] obtain w where w: "snd (symbol_save env symbol df tr) = (tr @ [MakeDirs (symbol_dir env tr)]) @ f @ w"
          "paced w" "sleeps w = 0" "requests_of w = []" by blast
        have "paced (MakeDirs (symbol_dir env tr) # f @ w)" "paced (MakeDirs (symbol_dir env tr) # f @ w @ [Sleep 1])"
          using f(2) w(2) by (simp_all add: paced_append)
        then show ?thesis
          using None Inr Some f w
          by (auto simp: process_symbol_cases sleeps_simps sleeps_append requests_of_append
              split: sum.splits intro!: exI [of _ "MakeDirs (symbol_dir env tr) # f @ w"])
      qed
    qed
  qed
qed


lemma for_symbols_paced:
  "\<exists>new. snd (for_symbols env batch tr) = tr @ new \<and> paced new \<and>
     (fst (for_symbols env batch tr) = Inr () \<longrightarrow>
        sleeps new = length (requests_of new) + length batch)"
proof (induction batch arbitrary: tr)
  case Nil
  show ?case by (simp add: sleeps_simps)
next
  case (Cons symbol batch)
  from process_symbol_paced [of env symbol tr] obtain p where
    p: "snd (process_symbol env symbol tr) = tr @ p" "paced p"
       "fst (process_symbol env symbol tr) = Inr () \<longrightarrow>
          (\<exists>mid. p = mid @ [Sleep 1] \<and> paced mid \<and> sleeps mid = length (requests_of mid))"
    by blast
  show ?case
  proof (cases "fst (process_symbol env symbol tr)")
    case (Inl x)
    then show ?thesis using p by (simp add: for_symbols_Cons del: for_symbols.simps)
  next
    case (Inr u)
    with p(3) have c: "sleeps p = length (requests_of p) + 1"
      by (auto simp: sleeps_append sleeps_simps requests_of_append)
    from Cons.IH [of "tr @ p"] obtain new where
      new: "snd (for_symbols env batch (tr @ p)) = (tr @ p) @ new" "paced new"
        "fst (for_symbols env batch (tr @ p)) = Inr () \<longrightarrow>
           sleeps new = length (requests_of new) + length batch"
      by blast
    show ?thesis
      using Inr p new c
      by (auto simp: for_symbols_Cons paced_append sleeps_append requests_of_append
          simp del: for_symbols.simps intro!: exI [of _ "p @ new"])
  qed
qed

lemma for_batches_paced:
  "\<exists>new. snd (for_batches env symbols batch_size idx tr) = tr @ new \<and> paced new \<and>
     (fst (for_batches env symbols batch_size idx tr) = Inr () \<longrightarrow>
        sleeps new = length (requests_of new) +
          length (concat (map (\<lambda>i. slice symbols i (i + batch_size)) idx)))"
proof (induction idx arbitrary: tr)
  case Nil
  show ?case by (simp add: sleeps_simps)
next
  case (Cons i idx)
  let ?tr1 = "tr @ [Print (batch_message symbols batch_size i)]"
  let ?b = "slice symbols i (i + batch_size)"
  from for_symbols_paced [of env ?b ?tr1] obtain p where
    p: "snd (for_symbols env ?b ?tr1) = ?tr1 @ p" "paced p"
       "fst (for_symbols env ?b ?tr1) = Inr () \<longrightarrow> sleeps p = length (requests_of p) + length ?b"
    by blast
  show ?case
  proof (cases "fst (for_symbols env ?b ?tr1)")
    case (Inl x)
    then show ?thesis
      using p by (auto simp: for_batches_Cons simp del: for_batches.simps
          intro!: exI [of _ "Print (batch_message symbols batch_size i) # p"])
  next
    case (Inr u)
    from Cons.IH [of "?tr1 @ p"] obtain new where
      new: "snd (for_batches env symbols batch_size idx (?tr1 @ p)) = (?tr1 @ p) @ new" "paced new"
        "fst (for_batches env symbols batch_size idx (?tr1 @ p)) = Inr () \<longrightarrow>
           sleeps new = length (requests_of new) +
             length (concat (map (\<lambda>i. slice symbols i (i + batch_size)) idx))"
      by blast
    show ?thesis
      using Inr p new
      by (auto simp: for_batches_Cons paced_append sleeps_append sleeps_simps requests_of_append
          simp del: for_batches.simps intro!: exI [of _ "Print (batch_message symbols batch_size i) # p @ new"])
  qed
qed


lemma slice_index_nat: "slice_index n (int j) = min j n"
  by (simp add: slice_index_def)

lemma slice_batch:
  "slice xs (int (k * b)) (int (k * b + b)) = take b (drop (k * b) xs)"
  unfolding slice_def slice_index_nat
  by (cases "k * b \<le> length xs") (simp_all add: min_def)

lemma concat_batches: "concat (map (\<lambda>k. take b (drop (k * b) xs)) [0..<m]) = take (m * b) xs"
proof (induction m)
  case 0
  show ?case by simp
next
  case (Suc m)
  have "take (b + m * b) xs = take (m * b) xs @ take b (drop (m * b) xs)"
    by (metis add.commute take_add)
  with Suc show ?case by simp
qed

lemma ceil_div_covers:
  assumes "0 < (b::nat)"
  shows "n \<le> ((n + b - 1) div b) * b"
proof -
  have "(n + b - 1) mod b < b" using assms by simp
  moreover have "((n + b - 1) div b) * b + (n + b - 1) mod b = n + b - 1" by simp
  ultimately show ?thesis using assms by linarith
qed

lemma py_range_batches:
  assumes "0 < b"
  shows "py_range 0 (int n) (int b) = map (\<lambda>k. int (k * b)) [0..<(n + b - 1) div b]"
proof -
  have "int n + int b - 1 = int (n + b - 1)" using assms by linarith
  moreover have "nat (int (n + b - 1) div int b) = (n + b - 1) div b"
    by (metis nat_int zdiv_int)
  ultimately have "nat ((int n + int b - 1) div int b) = (n + b - 1) div b"
    by (simp only:)
  moreover have "(0::int) < int b" using assms by simp
  ultimately show ?thesis
    unfolding py_range_def by (simp only: if_True diff_zero add_0 of_nat_mult)
qed

lemma batches_cover:
  assumes "0 < batch_size"
  shows "concat (map (\<lambda>i. slice symbols i (i + batch_size)) (py_range 0 (int (length symbols)) batch_size)) = symbols"
proof -
  define b where "b = nat batch_size"
  have bs: "batch_size = int b" "0 < b" using assms by (simp_all add: b_def)
  have "map (\<lambda>i. slice symbols i (i + batch_size)) (py_range 0 (int (length symbols)) batch_size) =
    map (\<lambda>k. take b (drop (k * b) symbols)) [0..<(length symbols + b - 1) div b]"
    unfolding bs(1) py_range_batches [OF bs(2)] map_map comp_def
    by (simp only: of_nat_add [symmetric] slice_batch)
  then show ?thesis
    using ceil_div_covers [OF bs(2), of "length symbols"] by (simp add: concat_batches)
qed


text \<open>
  Claim C8. In the trace of a run every request is followed by a one-second pause, whatever
  the fetch returned. The processing of a symbol that completes ends with one more
  one-second pause, after a paced stretch that has exactly one pause per request, whether
  or not a file was written in it. So a run that completes has as many pauses as requests
  plus one per symbol.
\<close>

theorem pacing_delays:
  "(\<exists>new. snd (process_symbols_in_batches env symbols batch_size tr) = tr @ new \<and> paced new) \<and>
   (fst (process_symbol env symbol tr) = Inr () \<longrightarrow>
      (\<exists>mid. snd (process_symbol env symbol tr) = tr @ mid @ [Sleep 1] \<and> paced mid \<and>
             sleeps mid = length (requests_of mid))) \<and>
   (0 < batch_size \<and> fst (process_symbols_in_batches env symbols batch_size []) = Inr () \<longrightarrow>
      sleeps (snd (process_symbols_in_batches env symbols batch_size [])) =
        length (requests_of (snd (process_symbols_in_batches env symbols batch_size []))) + length symbols)"
proof -
  have 1: "\<exists>new. snd (process_symbols_in_batches env symbols batch_size tr) = tr @ new \<and> paced new"
    using for_batches_paced [of env symbols batch_size _ tr]
    by (auto simp: process_symbols_in_batches_def)
  have 2: "\<exists>mid. snd (process_symbol env symbol tr) = tr @ mid @ [Sleep 1] \<and> paced mid \<and>
             sleeps mid = length (requests_of mid)"
    if "fst (process_symbol env symbol tr) = Inr ()"
    using that process_symbol_paced [of env symbol tr] by auto
  have 3: "sleeps (snd (process_symbols_in_batches env symbols batch_size [])) =
        length (requests_of (snd (process_symbols_in_batches env symbols batch_size []))) + length symbols"
    if "0 < batch_size" "fst (process_symbols_in_batches env symbols batch_size []) = Inr ()"
    using that for_batches_paced [of env symbols batch_size "py_range 0 (int (length symbols)) batch_size" "[]"]
      batches_cover [OF that(1), of symbols]
    by (auto simp: process_symbols_in_batches_def)
  from 1 2 3 show ?thesis by blast
qed

lemma process_symbol_fixed:
  "process_symbol (fixed_env (Inr (Some one_bar)) (timedelta 20000)) ''TEST'' [Print ''Processing batch 1 of 1''] =
    (Inr (), snd (process_symbols_in_batches (fixed_env (Inr (Some one_bar)) (timedelta 20000)) [''TEST''] 50 []))"
proof -
  have r: "py_range 0 (int (length [''TEST''])) 50 = [0]" by (simp add: py_range_def)
  have s: "slice [''TEST''] 0 50 = [''TEST'']" by (simp add: slice_def slice_index_def)
  have m: "batch_message [''TEST''] 50 0 = ''Processing batch 1 of 1''" by code_simp
  have "fst (process_symbols_in_batches (fixed_env (Inr (Some one_bar)) (timedelta 20000)) [''TEST''] 50 []) = Inr ()"
    by (simp add: run_fixed)
  then show ?thesis
    unfolding process_symbols_in_batches_def r
    by (cases "process_symbol (fixed_env (Inr (Some one_bar)) (timedelta 20000)) ''TEST'' [Print ''Processing batch 1 of 1'']")
       (auto simp: s m split: sum.splits)
qed

theorem pacing_delays_witness:
  "paced (snd (process_symbols_in_batches (fixed_env (Inr (Some one_bar)) (timedelta 20000)) [''TEST''] 50 [])) \<and>
   (\<exists>mid. snd (process_symbol (fixed_env (Inr (Some one_bar)) (timedelta 20000)) ''TEST'' [Print ''Processing batch 1 of 1'']) =
      [Print ''Processing batch 1 of 1''] @ mid @ [Sleep 1] \<and> paced mid \<and> sleeps mid = length (requests_of mid)) \<and>
   sleeps (snd (process_symbols_in_batches (fixed_env (Inr (Some one_bar)) (timedelta 20000)) [''TEST''] 50 [])) = 3 \<and>
   length (requests_of (snd (process_symbols_in_batches (fixed_env (Inr (Some one_bar)) (timedelta 20000)) [''TEST''] 50 []))) = 2"
proof -
  have f: "fst (process_symbols_in_batches (fixed_env (Inr (Some one_bar)) (timedelta 20000)) [''TEST''] 50 []) = Inr ()"
    by (simp add: run_fixed)
  have p: "fst (process_symbol (fixed_env (Inr (Some one_bar)) (timedelta 20000)) ''TEST'' [Print ''Processing batch 1 of 1'']) = Inr ()"
    by (simp add: process_symbol_fixed)
  have l: "length (requests_of (snd (process_symbols_in_batches (fixed_env (Inr (Some one_bar)) (timedelta 20000)) [''TEST''] 50 []))) = 2"
    by (simp add: run_fixed)
  show ?thesis
    using f p l pacing_delays [of "fixed_env (Inr (Some one_bar)) (timedelta 20000)" "[''TEST'']" 50 "[]" "''TEST''"]
       pacing_delays [of "fixed_env (Inr (Some one_bar)) (timedelta 20000)" "[''TEST'']" 50 "[Print ''Processing batch 1 of 1'']" "''TEST''"]
    by auto
qed

section \<open>Termination\<close>

lemma windows_Cons:
  "s < e \<Longrightarrow> windows s e = (s, min (s + timedelta 1000) e) # windows (min (s + timedelta 1000) e + timedelta 1) e"
  by (subst windows.simps) (simp add: Let_def)

lemma windows_Nil: "\<not> s < e \<Longrightarrow> windows s e = []"
  by (subst windows.simps) simp

lemma windows_start: "w \<in> set (windows s e) \<Longrightarrow> s \<le> fst w"
proof (induction s e rule: windows.induct)
  case (1 s e)
  show ?case
  proof (cases "s < e")
    case True
    with "1.prems" have "w = (s, min (s + timedelta 1000) e) \<or>
        w \<in> set (windows (min (s + timedelta 1000) e + timedelta 1) e)"
      by (simp add: windows_Cons)
    then show ?thesis
    proof
      assume "w = (s, min (s + timedelta 1000) e)"
      then show ?thesis by simp
    next
      assume "w \<in> set (windows (min (s + timedelta 1000) e + timedelta 1) e)"
      from "1.IH" [OF True refl this] True show ?thesis
        by (simp add: timedelta_def day_def)
    qed
  next
    case False
    with "1.prems" show ?thesis by (simp add: windows_Nil)
  qed
qed

lemma windows_advance: "sorted_wrt (\<lambda>w w'. fst w + timedelta 1 \<le> fst w') (windows s e)"
proof (induction s e rule: windows.induct)
  case (1 s e)
  show ?case
  proof (cases "s < e")
    case True
    have "s + timedelta 1 \<le> fst w'" if "w' \<in> set (windows (min (s + timedelta 1000) e + timedelta 1) e)" for w'
      using windows_start [OF that] True by (simp add: timedelta_def day_def)
    with "1.IH" [OF True refl] True show ?thesis
      by (simp add: windows_Cons)
  next
    case False
    then show ?thesis by (simp add: windows_Nil)
  qed
qed

lemma windows_five_years: "length (windows (t - timedelta (5 * 365)) t) = 2"
proof -
  have 1: "t - timedelta (5 * 365) < t" by (simp add: timedelta_def day_def)
  have 2: "min (t - timedelta (5 * 365) + timedelta 1000) t = t - timedelta 825"
    by (simp add: timedelta_def day_def)
  have 3: "t - timedelta 825 + timedelta 1 < t" by (simp add: timedelta_def day_def)
  have 4: "min (t - timedelta 825 + timedelta 1 + timedelta 1000) t = t"
    by (simp add: timedelta_def day_def)
  have 5: "\<not> t + timedelta 1 < t" by (simp add: timedelta_def day_def)
  show ?thesis
    by (simp only: windows_Cons [OF 1] 2 windows_Cons [OF 3] 4 windows_Nil [OF 5]) simp
qed

lemma fetch_chunks_length: "length (snd (fetch_chunks env symbol ws tr)) \<le> length tr + 3 * length ws"
proof (induction ws arbitrary: tr)
  case Nil
  show ?case by simp
next
  case (Cons w ws)
  have "length (snd (fetch_historical_data_chunk env symbol (fst w) (snd w) tr) @ [Sleep 1]) \<le> length tr + 3"
    by (simp add: chunk_cases split: sum.splits)
  with Cons.IH [of "snd (fetch_historical_data_chunk env symbol (fst w) (snd w) tr) @ [Sleep 1]"]
  show ?case
    by (simp only: fetch_chunks_Cons snd_conv) simp
qed

lemma save_symbol_length: "length (snd (save_symbol env output_dir symbol df tr)) \<le> length tr + 2"
  by (simp add: save_symbol_cases split: sum.splits option.splits)

lemma process_symbol_length: "length (snd (process_symbol env symbol tr)) \<le> length tr + 10"
proof -
  have f: "length (snd (symbol_fetch env symbol tr)) \<le> length tr + 7"
    unfolding symbol_fetch_def fetch_historical_data_trace
    using fetch_chunks_length [of env symbol "windows (now env tr - timedelta (5 * 365)) (now env tr)"
        "tr @ [MakeDirs (symbol_dir env tr)]"]
    by (simp only: windows_five_years) simp
  have s: "length (snd (symbol_save env symbol df tr)) \<le> length tr + 9" for df
    unfolding symbol_save_def
    using save_symbol_length [of env "symbol_dir env tr" symbol df "snd (symbol_fetch env symbol tr)"] f
    by simp
  show ?thesis
  proof (cases "fst (symbol_fetch env symbol tr)")
    case (Inl x)
    then show ?thesis using f by (simp add: process_symbol_cases split: option.splits)
  next
    case (Inr r)
    show ?thesis
    proof (cases r)
      case None
      then show ?thesis using f Inr by (simp add: process_symbol_cases split: option.splits)
    next
      case (Some df)
      then show ?thesis
        using s [of df] Inr by (simp add: process_symbol_cases split: option.splits sum.splits)
    qed
  qed
qed

lemma for_symbols_length: "length (snd (for_symbols env batch tr)) \<le> length tr + 10 * length batch"
proof (induction batch arbitrary: tr)
  case Nil
  show ?case by simp
next
  case (Cons symbol batch)
  from Cons.IH [of "snd (process_symbol env symbol tr)"] process_symbol_length [of env symbol tr]
  show ?case
    by (simp add: for_symbols_Cons del: for_symbols.simps split: sum.splits)
qed

lemma for_batches_length:
  "length (snd (for_batches env symbols batch_size idx tr)) \<le>
     length tr + length idx + 10 * length (concat (map (\<lambda>i. slice symbols i (i + batch_size)) idx))"
proof (induction idx arbitrary: tr)
  case Nil
  show ?case by simp
next
  case (Cons i idx)
  let ?s = "for_symbols env (slice symbols i (i + batch_size)) (tr @ [Print (batch_message symbols batch_size i)])"
  from Cons.IH [of "snd ?s"]
    for_symbols_length [of env "slice symbols i (i + batch_size)" "tr @ [Print (batch_message symbols batch_size i)]"]
  show ?case
    by (simp add: for_batches_Cons del: for_batches.simps split: sum.splits)
qed

lemma div_below_divisor: "x < c \<Longrightarrow> 0 < c \<Longrightarrow> x div c \<le> (0::int)"
proof -
  assume "x < c" "0 < c"
  then have "x div c \<le> (c - 1) div c" by (intro zdiv_mono1) simp_all
  moreover have "(c - 1) div c = 0" using \<open>0 < c\<close> by (simp add: div_pos_pos_trivial)
  ultimately show ?thesis by simp
qed

lemma py_range_negative: "batch_size < 0 \<Longrightarrow> py_range 0 (int n) batch_size = []"
proof -
  assume b: "batch_size < 0"
  have "(0 - int n - batch_size - 1) div (- batch_size) \<le> 0"
    using b by (intro div_below_divisor) simp_all
  with b show ?thesis by (simp add: py_range_def)
qed

lemma number_of_batches:
  assumes "0 < batch_size"
  shows "length (py_range 0 (int n) batch_size) \<le> n"
proof -
  define b where "b = nat batch_size"
  have bs: "batch_size = int b" "0 < b" using assms by (simp_all add: b_def)
  have "n \<le> n * b" using bs(2) by simp
  moreover have "Suc n * b = b + n * b" by simp
  ultimately have "n + b - 1 < Suc n * b" using bs(2) by linarith
  then have "(n + b - 1) div b < Suc n"
    by (rule less_mult_imp_div_less)
  then show ?thesis
    unfolding bs(1) py_range_batches [OF bs(2)] by simp
qed

lemma run_length:
  "length (snd (process_symbols_in_batches env symbols batch_size tr)) \<le> length tr + 11 * length symbols"
proof -
  consider "batch_size = 0" | "batch_size < 0" | "0 < batch_size" by linarith
  then show ?thesis
  proof cases
    case 1
    then show ?thesis by (simp add: process_symbols_in_batches_def)
  next
    case 2
    then show ?thesis by (simp add: process_symbols_in_batches_def py_range_negative)
  next
    case 3
    with for_batches_length [of env symbols batch_size "py_range 0 (int (length symbols)) batch_size" tr]
      number_of_batches [OF 3, of "length symbols"] batches_cover [OF 3, of symbols]
    show ?thesis by (simp add: process_symbols_in_batches_def)
  qed
qed

text \<open>
  Claim C9. The \<^verbatim>\<open>while\<close> loop of \<open>fetch_historical_data\<close>, written with no termination
  argument, returns for every symbol, every pair of instants and every world, and returns
  what the terminating loop computes; from one iteration to the next \<open>current_start\<close>
  grows by at least one day; and a run over a list of symbols ends after at most eleven
  effects per symbol.
\<close>

theorem processing_terminates:
  "fetch_while env symbol end_date' all_data start_date tr =
     Some (fetch_loop env symbol end_date' all_data start_date tr) \<and>
   sorted_wrt (\<lambda>w w'. fst w + timedelta 1 \<le> fst w') (windows start_date end_date') \<and>
   length (snd (process_symbols_in_batches env symbols batch_size tr)) \<le> length tr + 11 * length symbols"
  using fetch_while_returns windows_advance run_length by blast

theorem processing_terminates_witness:
  "fetch_while (fixed_env (Inr (Some one_bar)) (timedelta 20000)) ''TEST'' (timedelta 1825) [] 0 [] =
     Some (fetch_loop (fixed_env (Inr (Some one_bar)) (timedelta 20000)) ''TEST'' (timedelta 1825) [] 0 []) \<and>
   sorted_wrt (\<lambda>w w'. fst w + timedelta 1 \<le> fst w') [(0, timedelta 1000), (timedelta 1001, timedelta 1825)] \<and>
   length (snd (process_symbols_in_batches (fixed_env (Inr (Some one_bar)) (timedelta 20000)) [''TEST''] 50 [])) \<le> 11"
  using processing_terminates [of "fixed_env (Inr (Some one_bar)) (timedelta 20000)" "''TEST''" "timedelta 1825" "[]" 0 "[]"
      "[''TEST'']" 50]
  by (simp add: windows_1825)

section \<open>Failures of the file system\<close>

lemma quiet_Nil: "quiet env []"
  by (simp add: quiet_def)

lemma quiet_snoc: "quiet env tr \<Longrightarrow> raises env tr ev = None \<Longrightarrow> quiet env (tr @ [ev])"
  unfolding quiet_def
  by (auto simp: append_eq_append_conv2 Cons_eq_append_conv append_eq_Cons_conv)

lemma halted_snoc: "quiet env tr \<Longrightarrow> raises env tr ev = Some x \<Longrightarrow> halted env (tr @ [ev]) x"
  unfolding halted_def by blast

lemma quiet_harmless:
  "quiet env tr \<Longrightarrow> list_all (\<lambda>ev. \<forall>tr'. raises env tr' ev = None) evs \<Longrightarrow> quiet env (tr @ evs)"
proof (induction evs arbitrary: tr)
  case Nil
  then show ?case by simp
next
  case (Cons ev evs)
  have "quiet env (tr @ [ev])" using Cons.prems by (intro quiet_snoc) auto
  from Cons.IH [OF this] Cons.prems(2) show ?case by simp
qed

lemma run_ok_halts:
  assumes "run_ok env r tr" "tr = pre @ ev # post" "raises env pre ev = Some x"
  shows "post = [] \<and> r = Inl x"
proof -
  have nq: "\<not> quiet env tr" using assms(2,3) by (auto simp: quiet_def)
  with assms(1) obtain y where r: "r = Inl y" and h: "halted env tr y"
    by (cases r) (auto simp: run_ok_def)
  from h obtain pre' ev' where t: "tr = pre' @ [ev']" and q: "quiet env pre'" and y: "raises env pre' ev' = Some y"
    by (auto simp: halted_def)
  from t assms(2) have e: "pre @ ev # post = pre' @ [ev']" by simp
  show ?thesis
  proof (cases "post = []")
    case True
    with e have "pre = pre'" "ev = ev'" by simp_all
    with y assms(3) r True show ?thesis by simp
  next
    case False
    then obtain post' where "post = post' @ [ev']" "pre' = pre @ ev # post'"
      using e by (metis append_butlast_last_id append_Cons append_assoc butlast_snoc last_snoc
          last_appendR list.distinct(1) last_ConsR)
    with q assms(3) show ?thesis by (auto simp: quiet_def)
  qed
qed

lemma fetch_chunks_quiet: "quiet env tr \<Longrightarrow> quiet env (snd (fetch_chunks env symbol ws tr))"
proof (induction ws arbitrary: tr)
  case Nil
  then show ?case by simp
next
  case (Cons w ws)
  have "quiet env (snd (fetch_historical_data_chunk env symbol (fst w) (snd w) tr) @ [Sleep 1])"
    using quiet_harmless [OF Cons.prems]
    by (simp add: chunk_cases split: sum.splits)
  from Cons.IH [OF this] show ?case
    by (simp only: fetch_chunks_Cons snd_conv)
qed

lemma save_symbol_ok:
  assumes "quiet env tr"
  shows "run_ok env (fst (save_symbol env output_dir symbol df tr)) (snd (save_symbol env output_dir symbol df tr))"
proof (cases "sort_values df ''Date''")
  case (Inl x)
  then show ?thesis using assms by (simp add: save_symbol_cases run_ok_def)
next
  case (Inr sorted_df)
  show ?thesis
  proof (cases "to_csv env tr (output_file_name output_dir symbol) sorted_df")
    case (Some x)
    then have "halted env (tr @ [ToCsv (output_file_name output_dir symbol) sorted_df]) x"
      using assms by (intro halted_snoc) simp_all
    then show ?thesis using Inr Some by (simp add: save_symbol_cases run_ok_def)
  next
    case None
    then have q: "quiet env (tr @ [ToCsv (output_file_name output_dir symbol) sorted_df])"
      using assms by (intro quiet_snoc) simp_all
    have "quiet env ((tr @ [ToCsv (output_file_name output_dir symbol) sorted_df]) @ [Print m])" for m
      by (rule quiet_snoc [OF q]) simp
    then show ?thesis
      using Inr None q by (simp add: save_symbol_cases run_ok_def split: sum.splits)
  qed
qed

lemma process_symbol_ok:
  assumes "quiet env tr"
  shows "run_ok env (fst (process_symbol env symbol tr)) (snd (process_symbol env symbol tr))"
proof (cases "makedirs env tr (symbol_dir env tr)")
  case (Some x)
  then have "halted env (tr @ [MakeDirs (symbol_dir env tr)]) x"
    using assms by (intro halted_snoc) simp_all
  then show ?thesis using Some by (simp add: process_symbol_cases run_ok_def)
next
  case None
  then have "quiet env (tr @ [MakeDirs (symbol_dir env tr)])"
    using assms by (intro quiet_snoc) simp_all
  then have f: "quiet env (snd (symbol_fetch env symbol tr))"
    unfolding symbol_fetch_def fetch_historical_data_trace by (rule fetch_chunks_quiet)
  have fs: "quiet env (snd (symbol_fetch env symbol tr) @ [Sleep 1])"
    by (rule quiet_snoc [OF f]) simp
  have s: "run_ok env (fst (symbol_save env symbol df tr)) (snd (symbol_save env symbol df tr))" for df
    unfolding symbol_save_def by (rule save_symbol_ok [OF f])
  have ss: "quiet env (snd (symbol_save env symbol df tr) @ [Sleep 1])"
    if "fst (symbol_save env symbol df tr) = Inr ()" for df
    using s [of df] that by (intro quiet_snoc) (simp_all add: run_ok_def)
  show ?thesis
  proof (cases "fst (symbol_fetch env symbol tr)")
    case (Inl x)
    then show ?thesis using None fs by (simp add: process_symbol_cases run_ok_def)
  next
    case (Inr r)
    show ?thesis
    proof (cases r)
      case N: None
      then show ?thesis using None Inr fs by (simp add: process_symbol_cases run_ok_def)
    next
      case (Some df)
      show ?thesis
      proof (cases "fst (symbol_save env symbol df tr)")
        case L: (Inl x)
        then show ?thesis using None Inr Some s [of df] by (simp add: process_symbol_cases run_ok_def)
      next
        case R: (Inr u)
        then show ?thesis using None Inr Some ss [of df] by (simp add: process_symbol_cases run_ok_def)
      qed
    qed
  qed
qed

lemma for_symbols_ok:
  "quiet env tr \<Longrightarrow> run_ok env (fst (for_symbols env batch tr)) (snd (for_symbols env batch tr))"
proof (induction batch arbitrary: tr)
  case Nil
  then show ?case by (simp add: run_ok_def)
next
  case (Cons symbol batch)
  note p = process_symbol_ok [OF Cons.prems, of symbol]
  show ?case
  proof (cases "fst (process_symbol env symbol tr)")
    case (Inl x)
    then show ?thesis using p by (simp add: for_symbols_Cons del: for_symbols.simps)
  next
    case (Inr u)
    with p have "quiet env (snd (process_symbol env symbol tr))" by (simp add: run_ok_def)
    from Cons.IH [OF this] Inr show ?thesis by (simp add: for_symbols_Cons del: for_symbols.simps)
  qed
qed

lemma for_batches_ok:
  "quiet env tr \<Longrightarrow>
   run_ok env (fst (for_batches env symbols batch_size idx tr)) (snd (for_batches env symbols batch_size idx tr))"
proof (induction idx arbitrary: tr)
  case Nil
  then show ?case by (simp add: run_ok_def)
next
  case (Cons i idx)
  let ?s = "for_symbols env (slice symbols i (i + batch_size)) (tr @ [Print (batch_message symbols batch_size i)])"
  have "quiet env (tr @ [Print (batch_message symbols batch_size i)])"
    using Cons.prems by (intro quiet_snoc) simp_all
  note p = for_symbols_ok [OF this, of "slice symbols i (i + batch_size)"]
  show ?case
  proof (cases "fst ?s")
    case (Inl x)
    then show ?thesis using p by (simp add: for_batches_Cons del: for_batches.simps)
  next
    case (Inr u)
    with p have "quiet env (snd ?s)" by (simp add: run_ok_def)
    from Cons.IH [OF this] Inr show ?thesis by (simp add: for_batches_Cons del: for_batches.simps)
  qed
qed

text \<open>
  Claim C10. When creating the output directory or writing a symbol's file raises
  \<open>x\<close>, that event is the last of the run's trace and the run itself raises \<open>x\<close>:
  nothing catches the exception, and no later symbol is processed.
\<close>

theorem write_failures_halt_the_run:
  "snd (process_symbols_in_batches env symbols batch_size []) = pre @ ev # post \<and>
   ((\<exists>d. ev = MakeDirs d \<and> makedirs env pre d = Some x) \<or>
    (\<exists>p df. ev = ToCsv p df \<and> to_csv env pre p df = Some x)) \<longrightarrow>
   post = [] \<and> fst (process_symbols_in_batches env symbols batch_size []) = Inl x"
proof
  assume a: "snd (process_symbols_in_batches env symbols batch_size []) = pre @ ev # post \<and>
   ((\<exists>d. ev = MakeDirs d \<and> makedirs env pre d = Some x) \<or>
    (\<exists>p df. ev = ToCsv p df \<and> to_csv env pre p df = Some x))"
  then have r: "raises env pre ev = Some x" by auto
  have "run_ok env (fst (process_symbols_in_batches env symbols batch_size []))
          (snd (process_symbols_in_batches env symbols batch_size []))"
    using for_batches_ok [OF quiet_Nil]
    by (simp add: process_symbols_in_batches_def run_ok_def quiet_Nil)
  from run_ok_halts [OF this _ r] a
  show "post = [] \<and> fst (process_symbols_in_batches env symbols batch_size []) = Inl x"
    by blast
qed

theorem write_failures_halt_the_run_witness:
  "fst (process_symbols_in_batches full_disk_env [''A'', ''B'', ''C''] 50 []) = Inl (OtherError ''disk full'') \<and>
   last (snd (process_symbols_in_batches full_disk_env [''A'', ''B'', ''C''] 50 [])) =
     MakeDirs ''market_data_export_2019-10-06_to_2024-10-04'' \<and>
   makedirs full_disk_env (butlast (snd (process_symbols_in_batches full_disk_env [''A'', ''B'', ''C''] 50 [])))
     ''market_data_export_2019-10-06_to_2024-10-04'' = Some (OtherError ''disk full'') \<and>
   fst (process_symbols_in_batches read_only_env [''A'', ''B''] 50 []) = Inl (OtherError ''read-only file system'') \<and>
   last (snd (process_symbols_in_batches read_only_env [''A'', ''B''] 50 [])) =
     ToCsv ''market_data_export_2019-10-06_to_2024-10-04/A_data.csv''
       \<lparr>index_names = [], columns = canonical,
        data = [[DateC 19000, Str ''TEST'', Num 10, Num 12, Num 9, Num 11, Num 1000]]\<rparr>"
proof -
  have m: "makedirs full_disk_env (butlast (snd (process_symbols_in_batches full_disk_env [''A'', ''B'', ''C''] 50 [])))
     ''market_data_export_2019-10-06_to_2024-10-04'' = Some (OtherError ''disk full'')"
    unfolding run_full_disk by (simp add: full_disk_env_def)
  have w: "to_csv read_only_env tr p df = Some (OtherError ''read-only file system'')" for tr p df
    by (simp add: read_only_env_def)
  show ?thesis
    using m w
      write_failures_halt_the_run [of full_disk_env "[''A'', ''B'', ''C'']" 50
        "butlast (snd (process_symbols_in_batches full_disk_env [''A'', ''B'', ''C''] 50 []))"
        "last (snd (process_symbols_in_batches full_disk_env [''A'', ''B'', ''C''] 50 []))" "[]"
        "OtherError ''disk full''"]
      write_failures_halt_the_run [of read_only_env "[''A'', ''B'']" 50
        "butlast (snd (process_symbols_in_batches read_only_env [''A'', ''B''] 50 []))"
        "last (snd (process_symbols_in_batches read_only_env [''A'', ''B''] 50 []))" "[]"
        "OtherError ''read-only file system''"]
    by (simp add: run_full_disk run_read_only)
qed

section \<open>The files of a run\<close>

lemma writes_append: "writes (xs @ ys) = writes xs @ writes ys"
  by (induction xs) (auto split: event.splits)

lemma dirs_made_append: "dirs_made (xs @ ys) = dirs_made xs @ dirs_made ys"
  by (induction xs) (auto split: event.splits)

lemma fetch_chunks_files:
  "writes (snd (fetch_chunks env symbol ws tr)) = writes tr \<and>
   dirs_made (snd (fetch_chunks env symbol ws tr)) = dirs_made tr"
proof (induction ws arbitrary: tr)
  case Nil
  show ?case by simp
next
  case (Cons w ws)
  have "writes (snd (fetch_historical_data_chunk env symbol (fst w) (snd w) tr) @ [Sleep 1]) = writes tr \<and>
        dirs_made (snd (fetch_historical_data_chunk env symbol (fst w) (snd w) tr) @ [Sleep 1]) = dirs_made tr"
    by (simp add: chunk_cases writes_append dirs_made_append split: sum.splits)
  with Cons.IH [of "snd (fetch_historical_data_chunk env symbol (fst w) (snd w) tr) @ [Sleep 1]"]
  show ?case
    by (simp only: fetch_chunks_Cons snd_conv)
qed

lemma symbol_fetch_files:
  "writes (snd (symbol_fetch env symbol tr)) = writes tr"
  "dirs_made (snd (symbol_fetch env symbol tr)) = dirs_made tr @ [symbol_dir env tr]"
  unfolding symbol_fetch_def fetch_historical_data_trace
  by (simp_all add: fetch_chunks_files writes_append dirs_made_append)

lemma save_symbol_files:
  "writes (snd (save_symbol env output_dir symbol df tr)) =
     writes tr @ (case sort_values df ''Date'' of Inl x \<Rightarrow> [] | Inr df' \<Rightarrow> [(output_file_name output_dir symbol, df')])"
  "dirs_made (snd (save_symbol env output_dir symbol df tr)) = dirs_made tr"
  by (simp_all add: save_symbol_cases writes_append dirs_made_append split: sum.splits option.splits)

lemma process_symbol_writes:
  "writes (snd (process_symbol env symbol tr)) =
     writes tr @
       (case makedirs env tr (symbol_dir env tr) of
          Some x \<Rightarrow> []
        | None \<Rightarrow>
            (case fst (symbol_fetch env symbol tr) of
               Inr (Some df) \<Rightarrow>
                 (case sort_values df ''Date'' of
                    Inl x \<Rightarrow> []
                  | Inr df' \<Rightarrow> [(output_file_name (symbol_dir env tr) symbol, df')])
             | _ \<Rightarrow> []))"
  by (simp add: process_symbol_cases writes_append symbol_fetch_files symbol_save_def save_symbol_files
      split: option.splits sum.splits)

lemma symbol_writes_cases:
  "symbol_writes env symbol tr =
       (case makedirs env tr (symbol_dir env tr) of
          Some x \<Rightarrow> []
        | None \<Rightarrow>
            (case fst (symbol_fetch env symbol tr) of
               Inr (Some df) \<Rightarrow>
                 (case sort_values df ''Date'' of
                    Inl x \<Rightarrow> []
                  | Inr df' \<Rightarrow> [(output_file_name (symbol_dir env tr) symbol, df')])
             | _ \<Rightarrow> []))"
  unfolding symbol_writes_def process_symbol_writes by simp

lemma process_symbol_files:
  "writes (snd (process_symbol env symbol tr)) = writes tr @ symbol_writes env symbol tr"
  "dirs_made (snd (process_symbol env symbol tr)) = dirs_made tr @ [symbol_dir env tr]"
proof -
  show "writes (snd (process_symbol env symbol tr)) = writes tr @ symbol_writes env symbol tr"
    unfolding symbol_writes_cases by (rule process_symbol_writes)
  show "dirs_made (snd (process_symbol env symbol tr)) = dirs_made tr @ [symbol_dir env tr]"
    by (simp add: process_symbol_cases dirs_made_append symbol_fetch_files symbol_save_def save_symbol_files
        split: option.splits sum.splits)
qed

lemma reached_symbols_Cons:
  "reached_symbols env (symbol # batch) tr =
    (symbol, tr) #
      (case fst (process_symbol env symbol tr) of
        Inl x \<Rightarrow> []
      | Inr u \<Rightarrow> reached_symbols env batch (snd (process_symbol env symbol tr)))"
  by (cases "process_symbol env symbol tr") (simp split: sum.splits)

lemma reached_batches_Cons:
  "reached_batches env symbols batch_size (i # rest) tr =
    reached_symbols env (slice symbols i (i + batch_size)) (tr @ [Print (batch_message symbols batch_size i)]) @
      (case fst (for_symbols env (slice symbols i (i + batch_size)) (tr @ [Print (batch_message symbols batch_size i)])) of
        Inl x \<Rightarrow> []
      | Inr u \<Rightarrow> reached_batches env symbols batch_size rest
          (snd (for_symbols env (slice symbols i (i + batch_size)) (tr @ [Print (batch_message symbols batch_size i)]))))"
  by (cases "for_symbols env (slice symbols i (i + batch_size)) (tr @ [Print (batch_message symbols batch_size i)])")
     (simp split: sum.splits)

lemma for_symbols_files:
  "writes (snd (for_symbols env batch tr)) =
     writes tr @ concat (map (\<lambda>(symbol, t). symbol_writes env symbol t) (reached_symbols env batch tr)) \<and>
   dirs_made (snd (for_symbols env batch tr)) =
     dirs_made tr @ map (\<lambda>(symbol, t). symbol_dir env t) (reached_symbols env batch tr)"
proof (induction batch arbitrary: tr)
  case Nil
  show ?case by simp
next
  case (Cons symbol batch)
  show ?case
    using Cons.IH [of "snd (process_symbol env symbol tr)"]
    by (simp add: for_symbols_Cons reached_symbols_Cons process_symbol_files
        del: for_symbols.simps reached_symbols.simps split: sum.splits)
qed

lemma for_batches_files:
  "writes (snd (for_batches env symbols batch_size idx tr)) =
     writes tr @ concat (map (\<lambda>(symbol, t). symbol_writes env symbol t) (reached_batches env symbols batch_size idx tr)) \<and>
   dirs_made (snd (for_batches env symbols batch_size idx tr)) =
     dirs_made tr @ map (\<lambda>(symbol, t). symbol_dir env t) (reached_batches env symbols batch_size idx tr)"
proof (induction idx arbitrary: tr)
  case Nil
  show ?case by simp
next
  case (Cons i idx)
  let ?s = "for_symbols env (slice symbols i (i + batch_size)) (tr @ [Print (batch_message symbols batch_size i)])"
  show ?case
    using Cons.IH [of "snd ?s"]
      for_symbols_files [of env "slice symbols i (i + batch_size)" "tr @ [Print (batch_message symbols batch_size i)]"]
    by (simp add: for_batches_Cons reached_batches_Cons writes_append dirs_made_append
        del: for_batches.simps reached_batches.simps split: sum.splits)
qed

lemma run_files:
  "writes (snd (process_symbols_in_batches env symbols batch_size tr)) =
     writes tr @ concat (map (\<lambda>(symbol, t). symbol_writes env symbol t) (reached env symbols batch_size tr))"
  "dirs_made (snd (process_symbols_in_batches env symbols batch_size tr)) =
     dirs_made tr @ map (\<lambda>(symbol, t). symbol_dir env t) (reached env symbols batch_size tr)"
  by (simp_all add: process_symbols_in_batches_def reached_def for_batches_files)


lemma for_symbols_extends: "prefix tr (snd (for_symbols env batch tr))"
  using for_symbols_paced [of env batch tr] by (auto simp: prefix_def)

lemma process_symbol_extends: "prefix tr (snd (process_symbol env symbol tr))"
  using process_symbol_paced [of env symbol tr] by (auto simp: prefix_def)

lemma for_batches_extends: "prefix tr (snd (for_batches env symbols batch_size idx tr))"
  using for_batches_paced [of env symbols batch_size idx tr] by (auto simp: prefix_def)

lemma reached_symbols_names:
  "prefix (map fst (reached_symbols env batch tr)) batch \<and>
   (fst (for_symbols env batch tr) = Inr () \<longrightarrow> map fst (reached_symbols env batch tr) = batch)"
proof (induction batch arbitrary: tr)
  case Nil
  show ?case by simp
next
  case (Cons symbol batch)
  show ?case
    using Cons.IH [of "snd (process_symbol env symbol tr)"]
    by (simp add: for_symbols_Cons reached_symbols_Cons
        del: for_symbols.simps reached_symbols.simps split: sum.splits)
qed

lemma reached_batches_names:
  "prefix (map fst (reached_batches env symbols batch_size idx tr))
     (concat (map (\<lambda>i. slice symbols i (i + batch_size)) idx)) \<and>
   (fst (for_batches env symbols batch_size idx tr) = Inr () \<longrightarrow>
      map fst (reached_batches env symbols batch_size idx tr) =
        concat (map (\<lambda>i. slice symbols i (i + batch_size)) idx))"
proof (induction idx arbitrary: tr)
  case Nil
  show ?case by simp
next
  case (Cons i idx)
  let ?tr0 = "tr @ [Print (batch_message symbols batch_size i)]"
  let ?b = "slice symbols i (i + batch_size)"
  note n = reached_symbols_names [of env ?b ?tr0]
  show ?case
  proof (cases "fst (for_symbols env ?b ?tr0)")
    case (Inl x)
    then show ?thesis
      using n by (simp add: for_batches_Cons reached_batches_Cons
          del: for_batches.simps reached_batches.simps)
  next
    case (Inr u)
    then show ?thesis
      using n Cons.IH [of "snd (for_symbols env ?b ?tr0)"]
      by (simp add: for_batches_Cons reached_batches_Cons
          del: for_batches.simps reached_batches.simps)
  qed
qed

lemma reached_names:
  "prefix (map fst (reached env symbols batch_size tr)) symbols"
  "0 < batch_size \<Longrightarrow> fst (process_symbols_in_batches env symbols batch_size tr) = Inr () \<Longrightarrow>
     map fst (reached env symbols batch_size tr) = symbols"
proof -
  consider "batch_size = 0" | "batch_size < 0" | "0 < batch_size" by linarith
  then show "prefix (map fst (reached env symbols batch_size tr)) symbols"
  proof cases
    case 1
    then show ?thesis by (simp add: reached_def)
  next
    case 2
    then show ?thesis by (simp add: reached_def py_range_negative)
  next
    case 3
    with reached_batches_names [of env symbols batch_size "py_range 0 (int (length symbols)) batch_size" tr]
      batches_cover [OF 3, of symbols]
    show ?thesis by (simp add: reached_def)
  qed
  show "map fst (reached env symbols batch_size tr) = symbols"
    if "0 < batch_size" "fst (process_symbols_in_batches env symbols batch_size tr) = Inr ()"
    using that reached_batches_names [of env symbols batch_size "py_range 0 (int (length symbols)) batch_size" tr]
      batches_cover [OF that(1), of symbols]
    by (simp add: reached_def process_symbols_in_batches_def)
qed

lemma reached_symbols_moment:
  "(s, t) \<in> set (reached_symbols env batch tr) \<Longrightarrow>
   prefix tr t \<and> prefix (snd (process_symbol env s t)) (snd (for_symbols env batch tr))"
proof (induction batch arbitrary: tr)
  case Nil
  then show ?case by simp
next
  case (Cons symbol batch)
  let ?p = "process_symbol env symbol tr"
  show ?case
  proof (cases "(s, t) = (symbol, tr)")
    case True
    then show ?thesis
      using for_symbols_extends [of "snd ?p" env batch]
      by (simp add: for_symbols_Cons del: for_symbols.simps split: sum.splits)
  next
    case False
    with Cons.prems have r: "fst ?p = Inr ()" "(s, t) \<in> set (reached_symbols env batch (snd ?p))"
      by (auto simp: reached_symbols_Cons simp del: reached_symbols.simps split: sum.splits)
    from Cons.IH [OF r(2)] process_symbol_extends [of tr env symbol] r(1)
    show ?thesis
      by (auto simp: for_symbols_Cons simp del: for_symbols.simps)
  qed
qed

lemma reached_batches_moment:
  "(s, t) \<in> set (reached_batches env symbols batch_size idx tr) \<Longrightarrow>
   prefix tr t \<and> prefix (snd (process_symbol env s t)) (snd (for_batches env symbols batch_size idx tr))"
proof (induction idx arbitrary: tr)
  case Nil
  then show ?case by simp
next
  case (Cons i idx)
  let ?tr0 = "tr @ [Print (batch_message symbols batch_size i)]"
  let ?b = "slice symbols i (i + batch_size)"
  let ?f = "for_symbols env ?b ?tr0"
  have e: "prefix tr ?tr0" by simp
  from Cons.prems consider
      "(s, t) \<in> set (reached_symbols env ?b ?tr0)"
    | "fst ?f = Inr ()" "(s, t) \<in> set (reached_batches env symbols batch_size idx (snd ?f))"
    by (auto simp: reached_batches_Cons simp del: reached_batches.simps split: sum.splits)
  then show ?case
  proof cases
    case 1
    from reached_symbols_moment [OF 1] have m: "prefix ?tr0 t" "prefix (snd (process_symbol env s t)) (snd ?f)"
      by simp_all
    have "prefix tr t" using e m(1) by (rule prefix_order.trans)
    moreover have "prefix (snd (process_symbol env s t)) (snd (for_batches env symbols batch_size (i # idx) tr))"
      using m(2) for_batches_extends [of "snd ?f" env symbols batch_size idx]
      by (auto simp: for_batches_Cons simp del: for_batches.simps split: sum.splits)
    ultimately show ?thesis by simp
  next
    case 2
    from Cons.IH [OF 2(2)] have m: "prefix (snd ?f) t"
      "prefix (snd (process_symbol env s t)) (snd (for_batches env symbols batch_size idx (snd ?f)))"
      by simp_all
    have "prefix ?tr0 (snd ?f)" by (rule for_symbols_extends)
    with e have "prefix tr (snd ?f)" by (rule prefix_order.trans)
    then have "prefix tr t" using m(1) by (rule prefix_order.trans)
    then show ?thesis
      using m(2) 2(1) by (simp add: for_batches_Cons del: for_batches.simps)
  qed
qed

lemma reached_moment:
  "(s, t) \<in> set (reached env symbols batch_size tr) \<Longrightarrow>
   prefix tr t \<and> prefix (snd (process_symbol env s t)) (snd (process_symbols_in_batches env symbols batch_size tr))"
  using reached_batches_moment [of s t env symbols batch_size "py_range 0 (int (length symbols)) batch_size" tr]
  by (cases "batch_size = 0") (simp_all add: reached_def process_symbols_in_batches_def)



lemma symbol_writes_path:
  "map fst (symbol_writes env symbol t) =
    (if symbol_writes env symbol t \<noteq> [] then [output_file_name (symbol_dir env t) symbol] else [])"
  by (simp add: symbol_writes_cases split: option.splits sum.splits)

lemma concat_paths:
  "map fst (concat (map (\<lambda>(symbol, t). symbol_writes env symbol t) xs)) =
     map (\<lambda>(symbol, t). output_file_name (symbol_dir env t) symbol)
       (filter (\<lambda>(symbol, t). symbol_writes env symbol t \<noteq> []) xs)"
proof (induction xs)
  case Nil
  show ?case by simp
next
  case (Cons x xs)
  obtain symbol t where x: "x = (symbol, t)" by (cases x)
  show ?case
    using Cons.IH symbol_writes_path [of env symbol t] by (simp add: x)
qed

lemma symbol_dir_date:
  assumes "date_of (now env tr) = d"
  shows "symbol_dir env tr = run_dir d"
proof -
  have "(now env tr - 1825 * day) div day = now env tr div day - 1825"
    using div_mult_self1 [of day "now env tr" "-1825"] by (simp add: day_def)
  then show ?thesis
    using assms by (simp add: symbol_dir_def run_dir_def output_dir_name_def strftime_ymd_def date_of_def timedelta_def)
qed



lemma batch_message_single: "batch_message [s] 50 0 = ''Processing batch 1 of 1''"
  unfolding batch_message_def by code_simp

lemma reached_single: "reached env [s] 50 tr = [(s, tr @ [Print ''Processing batch 1 of 1''])]"
proof -
  have r: "py_range 0 (int (length [s])) 50 = [0]" by (simp add: py_range_def)
  have l: "slice [s] 0 50 = [s]" by (simp add: slice_def slice_index_def)
  have "reached_symbols env [s] t = [(s, t)]" for t
    by (simp split: prod.splits sum.splits)
  then show ?thesis
    unfolding reached_def r
    by (simp add: reached_batches_Cons l batch_message_single
        del: reached_batches.simps(2) reached_symbols.simps for_symbols.simps split: sum.splits)
qed



text \<open>
  Claim C7, as amended. A run creates one directory per symbol it reaches, in the order of
  the symbols, and the directory of a symbol is named from the clock as read at the moment the
  processing of that symbol begins and the instant 1825 days before it. The files of the
  run are, in order, those of the reached symbols for which a file is written, each the
  file name of its symbol in the directory of its symbol. The reached symbols are an
  initial stretch of the list of symbols, the whole list when the run completes, and each
  moment lies on the trace of the run, which goes on from it with the processing of that
  symbol. The name of a directory depends on the two dates only. When the clock shows the
  same day \<open>d\<close> at every reading, every directory of the run is \<open>run_dir d\<close> and
  every file goes into it.
\<close>

theorem destination_from_clock_and_symbol:
  "dirs_made (snd (process_symbols_in_batches env symbols batch_size tr)) =
     dirs_made tr @
       map (\<lambda>(symbol, t). output_dir_name (now env t - timedelta (5 * 365)) (now env t))
         (reached env symbols batch_size tr) \<and>
   map fst (writes (snd (process_symbols_in_batches env symbols batch_size tr))) =
     map fst (writes tr) @
       map (\<lambda>(symbol, t). output_file_name (output_dir_name (now env t - timedelta (5 * 365)) (now env t)) symbol)
         (filter (\<lambda>(symbol, t). symbol_writes env symbol t \<noteq> []) (reached env symbols batch_size tr)) \<and>
   prefix (map fst (reached env symbols batch_size tr)) symbols \<and>
   (0 < batch_size \<and> fst (process_symbols_in_batches env symbols batch_size tr) = Inr () \<longrightarrow>
      map fst (reached env symbols batch_size tr) = symbols) \<and>
   ((symbol, t) \<in> set (reached env symbols batch_size tr) \<longrightarrow>
      prefix tr t \<and>
      prefix (snd (process_symbol env symbol t)) (snd (process_symbols_in_batches env symbols batch_size tr))) \<and>
   (date_of a = date_of a' \<and> date_of b = date_of b' \<longrightarrow> output_dir_name a b = output_dir_name a' b') \<and>
   ((\<forall>t. date_of (now env t) = d) \<longrightarrow>
      dirs_made (snd (process_symbols_in_batches env symbols batch_size tr)) =
        dirs_made tr @ replicate (length (reached env symbols batch_size tr)) (run_dir d) \<and>
      map fst (writes (snd (process_symbols_in_batches env symbols batch_size tr))) =
        map fst (writes tr) @
          map (\<lambda>(symbol, t). output_file_name (run_dir d) symbol)
            (filter (\<lambda>(symbol, t). symbol_writes env symbol t \<noteq> []) (reached env symbols batch_size tr)))"
proof -
  let ?run = "process_symbols_in_batches env symbols batch_size tr"
  let ?r = "reached env symbols batch_size tr"
  have 1: "dirs_made (snd ?run) = dirs_made tr @ map (\<lambda>(symbol, t). symbol_dir env t) ?r"
    by (rule run_files)
  have 2: "map fst (writes (snd ?run)) =
     map fst (writes tr) @
       map (\<lambda>(symbol, t). output_file_name (symbol_dir env t) symbol)
         (filter (\<lambda>(symbol, t). symbol_writes env symbol t \<noteq> []) ?r)"
    by (simp only: run_files map_append concat_paths)
  have 3: "prefix (map fst ?r) symbols"
    by (rule reached_names)
  have 4: "map fst ?r = symbols" if "0 < batch_size \<and> fst ?run = Inr ()"
    using that reached_names(2) by blast
  have 5: "prefix tr t \<and> prefix (snd (process_symbol env symbol t)) (snd ?run)"
    if "(symbol, t) \<in> set ?r"
    using that by (rule reached_moment)
  have 6: "output_dir_name a b = output_dir_name a' b'" if "date_of a = date_of a' \<and> date_of b = date_of b'"
    using that by (simp add: output_dir_name_def strftime_ymd_def)
  have 7: "dirs_made (snd ?run) = dirs_made tr @ replicate (length ?r) (run_dir d) \<and>
      map fst (writes (snd ?run)) =
        map fst (writes tr) @
          map (\<lambda>(symbol, t). output_file_name (run_dir d) symbol)
            (filter (\<lambda>(symbol, t). symbol_writes env symbol t \<noteq> []) ?r)"
    if "\<forall>t. date_of (now env t) = d"
  proof -
    have d: "symbol_dir env t = run_dir d" for t
      using that by (intro symbol_dir_date) simp
    have "map (\<lambda>(symbol, t). run_dir d) ?r = replicate (length ?r) (run_dir d)"
      by (simp add: case_prod_unfold map_replicate_const)
    then show ?thesis
      unfolding 1 2 d by simp
  qed
  from 1 2 3 4 5 6 7 show ?thesis
    unfolding symbol_dir_def by blast
qed

text \<open>
  Claim C7 as stated fails on the single directory: the clock is read anew for every
  symbol, so a run that passes midnight between two symbols writes their files into two
  directories.
\<close>

theorem run_across_midnight_two_directories:
  "ToCsv ''market_data_export_2019-10-05_to_2024-10-03/A_data.csv''
     \<lparr>index_names = [], columns = canonical,
      data = [[DateC 19000, Str ''TEST'', Num 10, Num 12, Num 9, Num 11, Num 1000]]\<rparr>
     \<in> set (snd (process_symbols_in_batches midnight_env [''A'', ''B''] 50 [])) \<and>
   ToCsv ''market_data_export_2019-10-06_to_2024-10-04/B_data.csv''
     \<lparr>index_names = [], columns = canonical,
      data = [[DateC 19000, Str ''TEST'', Num 10, Num 12, Num 9, Num 11, Num 1000]]\<rparr>
     \<in> set (snd (process_symbols_in_batches midnight_env [''A'', ''B''] 50 [])) \<and>
   MakeDirs ''market_data_export_2019-10-05_to_2024-10-03''
     \<in> set (snd (process_symbols_in_batches midnight_env [''A'', ''B''] 50 [])) \<and>
   MakeDirs ''market_data_export_2019-10-06_to_2024-10-04''
     \<in> set (snd (process_symbols_in_batches midnight_env [''A'', ''B''] 50 []))"
  by (simp add: run_midnight)

lemma run_dir_20000: "run_dir 20000 = ''market_data_export_2019-10-06_to_2024-10-04''"
  by code_simp

theorem destination_from_clock_and_symbol_witness:
  "map fst (reached midnight_env [''A'', ''B''] 50 []) = [''A'', ''B''] \<and>
   map (\<lambda>(symbol, t). output_dir_name (now midnight_env t - timedelta (5 * 365)) (now midnight_env t))
     (reached midnight_env [''A'', ''B''] 50 []) =
     [''market_data_export_2019-10-05_to_2024-10-03'', ''market_data_export_2019-10-06_to_2024-10-04''] \<and>
   reached (fixed_env (Inr (Some one_bar)) (timedelta 20000)) [''TEST''] 50 [] =
     [(''TEST'', [Print ''Processing batch 1 of 1''])] \<and>
   prefix (snd (process_symbol (fixed_env (Inr (Some one_bar)) (timedelta 20000)) ''TEST'' [Print ''Processing batch 1 of 1'']))
     (snd (process_symbols_in_batches (fixed_env (Inr (Some one_bar)) (timedelta 20000)) [''TEST''] 50 [])) \<and>
   output_dir_name 0 (timedelta 1) = output_dir_name 1 (timedelta 1 + 1) \<and>
   dirs_made (snd (process_symbols_in_batches (fixed_env (Inr (Some one_bar)) (timedelta 20000)) [''TEST''] 50 [])) =
     [run_dir 20000] \<and>
   run_dir 20000 = ''market_data_export_2019-10-06_to_2024-10-04'' \<and>
   map fst (writes (snd (process_symbols_in_batches (fixed_env (Inr (Some one_bar)) (timedelta 20000)) [''TEST''] 50 []))) =
     [''market_data_export_2019-10-06_to_2024-10-04/TEST_data.csv'']"
proof -
  let ?env = "fixed_env (Inr (Some one_bar)) (timedelta 20000)"
  note m = destination_from_clock_and_symbol [of midnight_env "[''A'', ''B'']" 50 "[]" "''A''" "[]" 0 0 0 0 0]
  note f = destination_from_clock_and_symbol [of ?env "[''TEST'']" 50 "[]" "''TEST''" "[Print ''Processing batch 1 of 1'']"
      0 1 "timedelta 1" "timedelta 1 + 1" 20000]
  have c: "\<forall>t. date_of (now ?env t) = 20000"
    by (simp add: fixed_env_def date_of_def timedelta_def day_def)
  have e: "date_of 0 = date_of 1 \<and> date_of (timedelta 1) = date_of (timedelta 1 + 1)"
    by (simp add: date_of_def timedelta_def day_def)
  have 1: "map fst (reached midnight_env [''A'', ''B''] 50 []) = [''A'', ''B'']"
    using m by (simp add: run_midnight)
  have 2: "map (\<lambda>(symbol, t). output_dir_name (now midnight_env t - timedelta (5 * 365)) (now midnight_env t))
     (reached midnight_env [''A'', ''B''] 50 []) =
     [''market_data_export_2019-10-05_to_2024-10-03'', ''market_data_export_2019-10-06_to_2024-10-04'']"
    using m by (simp add: run_midnight)
  have 3: "prefix (snd (process_symbol ?env ''TEST'' [Print ''Processing batch 1 of 1'']))
     (snd (process_symbols_in_batches ?env [''TEST''] 50 []))"
    using f by (simp add: reached_single)
  have 4: "output_dir_name 0 (timedelta 1) = output_dir_name 1 (timedelta 1 + 1)"
    using f e by blast
  from f c have "dirs_made (snd (process_symbols_in_batches ?env [''TEST''] 50 [])) =
      dirs_made [] @ replicate (length (reached ?env [''TEST''] 50 [])) (run_dir 20000)"
    by blast
  then have 5: "dirs_made (snd (process_symbols_in_batches ?env [''TEST''] 50 [])) = [run_dir 20000]"
    by (simp add: reached_single)
  have 6: "map fst (writes (snd (process_symbols_in_batches ?env [''TEST''] 50 []))) =
     [''market_data_export_2019-10-06_to_2024-10-04/TEST_data.csv'']"
    by (simp add: run_fixed)
  from 1 2 3 4 5 6 run_dir_20000 reached_single [of ?env "''TEST''" "[]"] show ?thesis by simp
qed

end
